theory Spec2Isabelle
  imports Complex_Main "HOL-Library.Log_Nat"
begin

section \<open>JavaScript values\<close>

text \<open>
  The dashboard keeps whatever \<^verbatim>\<open>response.json()\<close> and \<^verbatim>\<open>JSON.parse\<close> hand it, unchecked, so
  the state holds dynamically typed values. \<open>JNum\<close> carries the exact value of a finite
  double; a string is the bytes of its text in UTF-8; an object is the list of its own
  properties, the first binding of a key being the property's value.
\<close>

datatype jsval =
    JUndefined
  | JNull
  | JBool bool
  | JNum rat
  | JStr string
  | JArr "jsval list"
  | JObj "(string \<times> jsval) list"

datatype error = TypeError | SyntaxError | InvalidChild

text \<open>ToBoolean: what \<^verbatim>\<open>c ? a : b\<close>, \<^verbatim>\<open>a && b\<close> and \<^verbatim>\<open>a || b\<close> test.\<close>

fun truthy :: "jsval \<Rightarrow> bool" where
  "truthy JUndefined = False"
| "truthy JNull = False"
| "truthy (JBool b) = b"
| "truthy (JNum n) = (n \<noteq> 0)"
| "truthy (JStr s) = (s \<noteq> [])"
| "truthy (JArr xs) = True"
| "truthy (JObj ps) = True"

text \<open>
  The member read \<^verbatim>\<open>v.k\<close>, for the names the components read (none of them is defined
  by a prototype): a TypeError on \<^verbatim>\<open>null\<close> and \<^verbatim>\<open>undefined\<close>, the own property of an
  object, \<^verbatim>\<open>undefined\<close> where there is none and on every other value.
\<close>

fun get :: "jsval \<Rightarrow> string \<Rightarrow> error + jsval" where
  "get JUndefined k = Inl TypeError"
| "get JNull k = Inl TypeError"
| "get (JObj ps) k = Inr (case map_of ps k of None \<Rightarrow> JUndefined | Some v \<Rightarrow> v)"
| "get v k = Inr JUndefined"

text \<open>Optional chaining \<^verbatim>\<open>v?.k\<close>: \<^verbatim>\<open>undefined\<close> on \<^verbatim>\<open>null\<close> and \<^verbatim>\<open>undefined\<close>, else the member read.\<close>

fun get_opt :: "jsval \<Rightarrow> string \<Rightarrow> error + jsval" where
  "get_opt JUndefined k = Inr JUndefined"
| "get_opt JNull k = Inr JUndefined"
| "get_opt v k = get v k"

text \<open>Sequencing of evaluations that may throw: the first exception ends the evaluation.\<close>

fun bind :: "error + 'a \<Rightarrow> ('a \<Rightarrow> error + 'b) \<Rightarrow> error + 'b" where
  "bind (Inl e) f = Inl e"
| "bind (Inr v) f = f v"

section \<open>SystemStats: the queue-health section\<close>

datatype health = Healthy | Backlog

record queue_card =
  depth :: jsval
  indicator :: health

text \<open>
  \<^verbatim>\<open>{stats && (<>...</>)}\<close>: a falsy \<^verbatim>\<open>stats\<close> is itself the child and no card is built.
\<close>

datatype queue_section = NoSection jsval | QueueHealth queue_card queue_card

text \<open>\<^verbatim>\<open>liveData ? liveData.k : stats.k\<close>\<close>

definition queue_depth :: "jsval \<Rightarrow> jsval \<Rightarrow> string \<Rightarrow> error + jsval" where
  "queue_depth stats liveData k = (if truthy liveData then get liveData k else get stats k)"

text \<open>\<^verbatim>\<open>(liveData?.k || stats.k) === 0 ? 'Healthy' : 'Backlog'\<close>\<close>

definition queue_health :: "jsval \<Rightarrow> jsval \<Rightarrow> string \<Rightarrow> error + health" where
  "queue_health stats liveData k =
     bind (get_opt liveData k) (\<lambda>l.
     bind (if truthy l then Inr l else get stats k) (\<lambda>v.
     Inr (if v = JNum 0 then Healthy else Backlog)))"

definition SystemStats_queues :: "jsval \<Rightarrow> jsval \<Rightarrow> error + queue_section" where
  "SystemStats_queues stats liveData =
     (if truthy stats then
        bind (queue_depth stats liveData ''frame_queue_size'') (\<lambda>fd.
        bind (queue_health stats liveData ''frame_queue_size'') (\<lambda>fh.
        bind (queue_depth stats liveData ''results_queue_size'') (\<lambda>rd.
        bind (queue_health stats liveData ''results_queue_size'') (\<lambda>rh.
        Inr (QueueHealth \<lparr>depth = fd, indicator = fh\<rparr> \<lparr>depth = rd, indicator = rh\<rparr>)))))
      else Inr (NoSection stats))"

section \<open>Numbers: division and \<^verbatim>\<open>toFixed(1)\<close>\<close>

text \<open>
  \<^verbatim>\<open>a / b\<close> on doubles is the exact quotient rounded to binary64 (53 significant bits, ties
  to even, the step never below \<open>2 powr -1074\<close>, infinite from \<open>2 powr 1024\<close> on); a zero
  divisor gives \<^verbatim>\<open>NaN\<close> or an infinity. Signed zeros are not told apart.
\<close>

datatype jsnum = Finite rat | PosInfinity | NegInfinity | NaN

definition pow2 :: "int \<Rightarrow> rat" where
  "pow2 k = (if 0 \<le> k then 2 ^ nat k else 1 / 2 ^ nat (- k))"

definition round_half_even :: "rat \<Rightarrow> int" where
  "round_half_even r =
     (let f = \<lfloor>r\<rfloor>; d = r - of_int f
      in if d < 1 / 2 then f else if 1 / 2 < d then f + 1 else if even f then f else f + 1)"

text \<open>The binary exponent of a positive rational: \<open>pow2 e \<le> q < pow2 (e + 1)\<close>.\<close>

definition exponent :: "rat \<Rightarrow> int" where
  "exponent q =
     (let e = bitlen (fst (quotient_of q)) - bitlen (snd (quotient_of q))
      in if pow2 e \<le> q then e else e - 1)"

definition binary64 :: "rat \<Rightarrow> jsnum" where
  "binary64 q =
     (if q = 0 then Finite 0
      else let a = \<bar>q\<bar>; s = max (exponent a - 52) (- 1074);
               v = of_int (round_half_even (a / pow2 s)) * pow2 s
           in if pow2 1024 \<le> v then (if 0 < q then PosInfinity else NegInfinity)
              else Finite (if 0 < q then v else - v))"

definition js_div :: "rat \<Rightarrow> rat \<Rightarrow> jsnum" where
  "js_div a b =
     (if b = 0 then (if a = 0 then NaN else if 0 < a then PosInfinity else NegInfinity)
      else binary64 (a / b))"

definition digit :: "nat \<Rightarrow> char" where
  "digit d = ''0123456789'' ! d"

fun digits :: "nat \<Rightarrow> string" where
  "digits n = (if n < 10 then [digit n] else digits (n div 10) @ [digit (n mod 10)])"

text \<open>The numeral with one decimal that denotes \<open>n / 10\<close>.\<close>

definition decimal1 :: "nat \<Rightarrow> string" where
  "decimal1 n = digits (n div 10) @ ''.'' @ [digit (n mod 10)]"

text \<open>
  What a component puts into a cell: a JavaScript value as it is, the result of
  \<^verbatim>\<open>v.toLocaleString()\<close> (its text depends on the locale), a text, the text
  \<^verbatim>\<open>Number::toString\<close> gives a number (the exponent form \<^verbatim>\<open>toFixed\<close> falls back to from
  \<open>10 ^ 21\<close> on), or the result of arithmetic on operands that are not numbers (their
  conversion is not modelled).
\<close>

datatype child =
    Value jsval
  | LocaleString jsval
  | Text string
  | NumberToString rat
  | Coerced jsval jsval

text \<open>
  \<^verbatim>\<open>x.toFixed(1)\<close>: the integer \<open>n\<close> with \<open>n / 10\<close> nearest to \<open>x\<close>, the larger one of two,
  printed with one decimal.
\<close>

definition toFixed1 :: "jsnum \<Rightarrow> child" where
  "toFixed1 x =
     (case x of
        NaN \<Rightarrow> Text ''NaN''
      | PosInfinity \<Rightarrow> Text ''Infinity''
      | NegInfinity \<Rightarrow> Text ''-Infinity''
      | Finite r \<Rightarrow>
          if 10 ^ 21 \<le> \<bar>r\<bar> then NumberToString r
          else if r < 0 then Text (''-'' @ decimal1 (nat \<lfloor>10 * (- r) + 1 / 2\<rfloor>))
          else Text (decimal1 (nat \<lfloor>10 * r + 1 / 2\<rfloor>)))"

section \<open>Dashboard\<close>

record stat_grid =
  total_frames :: child
  total_detections :: child
  active_streams :: child
  frame_queue :: child
  results_queue :: child
  avg_detections_per_frame :: child

datatype dashboard_view = Loading | Grid stat_grid

text \<open>
  \<^verbatim>\<open>v.toLocaleString()\<close> throws on \<^verbatim>\<open>undefined\<close> and \<^verbatim>\<open>null\<close>. On an object it finds an own
  member of that name (a JSON value, never a function) or the inherited method, which
  calls \<^verbatim>\<open>toString\<close>, again an own member or the inherited method; on an array it calls
  \<^verbatim>\<open>toLocaleString\<close> on every element but \<^verbatim>\<open>undefined\<close> and \<^verbatim>\<open>null\<close>.
\<close>

fun locale_throws :: "jsval \<Rightarrow> bool" and locale_throws_any :: "jsval list \<Rightarrow> bool" where
  "locale_throws (JObj ps) =
     (map_of ps ''toLocaleString'' \<noteq> None \<or> map_of ps ''toString'' \<noteq> None)"
| "locale_throws (JArr xs) = locale_throws_any xs"
| "locale_throws v = False"
| "locale_throws_any [] = False"
| "locale_throws_any (x # xs) = (locale_throws x \<or> locale_throws_any xs)"

fun toLocaleString :: "jsval \<Rightarrow> error + child" where
  "toLocaleString JUndefined = Inl TypeError"
| "toLocaleString JNull = Inl TypeError"
| "toLocaleString (JObj ps) =
     (if locale_throws (JObj ps) then Inl TypeError else Inr (LocaleString (JObj ps)))"
| "toLocaleString (JArr xs) =
     (if locale_throws (JArr xs) then Inl TypeError else Inr (LocaleString (JArr xs)))"
| "toLocaleString v = Inr (LocaleString v)"

text \<open>
  \<^verbatim>\<open>tf > 0 ? (td / tf).toFixed(1) : '0.0'\<close>, for a number of frames; the comparison and the
  division convert any other operand first.
\<close>

fun avg_detections :: "jsval \<Rightarrow> jsval \<Rightarrow> child" where
  "avg_detections (JNum a) (JNum b) = (if 0 < b then toFixed1 (js_div a b) else Text ''0.0'')"
| "avg_detections td (JNum b) = (if 0 < b then Coerced td (JNum b) else Text ''0.0'')"
| "avg_detections td tf = Coerced td tf"

definition Dashboard :: "jsval \<Rightarrow> jsval \<Rightarrow> error + dashboard_view" where
  "Dashboard stats liveData =
     (if truthy stats then
        bind (get stats ''total_frames_processed'') (\<lambda>tf.
        bind (toLocaleString tf) (\<lambda>frames.
        bind (get stats ''total_detections'') (\<lambda>td.
        bind (toLocaleString td) (\<lambda>detections.
        bind (get stats ''active_streams'') (\<lambda>streams.
        bind (queue_depth stats liveData ''frame_queue_size'') (\<lambda>fq.
        bind (queue_depth stats liveData ''results_queue_size'') (\<lambda>rq.
        Inr (Grid \<lparr>total_frames = frames, total_detections = detections,
                   active_streams = Value streams, frame_queue = Value fq,
                   results_queue = Value rq,
                   avg_detections_per_frame = avg_detections td tf\<rparr>))))))))
      else Inr Loading)"

section \<open>The spec's merge rule\<close>

text \<open>
  The two shapes of live event the spec recognizes, and its rule for a queue depth: the
  live event's value if one of the queue-depth kind has been received, else the
  snapshot's. They follow the spec's words and are compared with the components below.
\<close>

definition spec_queue_depth_kind :: "jsval \<Rightarrow> bool" where
  "spec_queue_depth_kind v =
     (case v of
        JObj ps \<Rightarrow>
          map_of ps ''frame_queue_size'' \<noteq> None \<and> map_of ps ''results_queue_size'' \<noteq> None
      | _ \<Rightarrow> False)"

definition spec_detection_kind :: "jsval \<Rightarrow> bool" where
  "spec_detection_kind v =
     (case v of JObj ps \<Rightarrow> map_of ps ''latest_detection'' \<noteq> None | _ \<Rightarrow> False)"

definition spec_recognized :: "jsval \<Rightarrow> bool" where
  "spec_recognized v = (spec_queue_depth_kind v \<or> spec_detection_kind v)"

definition spec_queue_depth :: "jsval \<Rightarrow> jsval \<Rightarrow> string \<Rightarrow> error + jsval" where
  "spec_queue_depth stats liveData k =
     (if spec_queue_depth_kind liveData then get liveData k else get stats k)"

section \<open>DetectionFeed: counting objects\<close>

record detection =
  class_name :: string

text \<open>
  \<^verbatim>\<open>counts\<close> starts as the literal \<^verbatim>\<open>{}\<close>, whose prototype is \<^verbatim>\<open>Object.prototype\<close>: a read
  \<^verbatim>\<open>counts[k]\<close> of a key with no own property finds the member of that name there, if
  there is one.
\<close>

definition Object_prototype :: "string list" where
  "Object_prototype =
     [''constructor'', ''__defineGetter__'', ''__defineSetter__'', ''hasOwnProperty'',
      ''__lookupGetter__'', ''__lookupSetter__'', ''isPrototypeOf'',
      ''propertyIsEnumerable'', ''toString'', ''valueOf'', ''__proto__'',
      ''toLocaleString'']"

text \<open>
  An own property of \<^verbatim>\<open>counts\<close> is a number, or a string: \<open>Concat k n\<close> is the text of the
  inherited member \<open>k\<close> followed by \<open>n\<close> characters \<^verbatim>\<open>1\<close> (what \<^verbatim>\<open>+ 1\<close> makes of an operand
  that is not a number).
\<close>

datatype tally = Count nat | Concat string nat

text \<open>
  \<^verbatim>\<open>counts[k] = (counts[k] || 0) + 1\<close>. Every inherited member is truthy (a function or
  an object); the assignment to \<^verbatim>\<open>__proto__\<close> runs the inherited setter, which ignores a
  string.
\<close>

definition count_label :: "(string \<rightharpoonup> tally) \<Rightarrow> string \<Rightarrow> (string \<rightharpoonup> tally)" where
  "count_label counts k =
     (case counts k of
        Some (Count n) \<Rightarrow> counts(k \<mapsto> Count (n + 1))
      | Some (Concat m n) \<Rightarrow> counts(k \<mapsto> Concat m (n + 1))
      | None \<Rightarrow>
          if k \<in> set Object_prototype
          then (if k = ''__proto__'' then counts else counts(k \<mapsto> Concat k 1))
          else counts(k \<mapsto> Count 1))"

definition getObjectCounts :: "detection list \<Rightarrow> (string \<rightharpoonup> tally)" where
  "getObjectCounts detectionList =
     fold (\<lambda>det counts. count_label counts (class_name det)) detectionList Map.empty"

section \<open>Conversions a render can run into\<close>

text \<open>
  Converting a value to a string or a number throws only on an object with an own
  member \<^verbatim>\<open>toString\<close> (once that is not callable, the inherited \<^verbatim>\<open>valueOf\<close> gives back the
  object and no primitive is found), and on an array with such an element.
\<close>

fun primitive_throws :: "jsval \<Rightarrow> bool" and primitive_throws_any :: "jsval list \<Rightarrow> bool" where
  "primitive_throws (JObj ps) = (map_of ps ''toString'' \<noteq> None)"
| "primitive_throws (JArr xs) = primitive_throws_any xs"
| "primitive_throws v = False"
| "primitive_throws_any [] = False"
| "primitive_throws_any (x # xs) = (primitive_throws x \<or> primitive_throws_any xs)"

text \<open>
  The white space and line terminators that the conversion of a string to a number
  strips from both ends, each as its bytes.
\<close>

definition white_space :: "string list" where
  "white_space =
     [[CHR 0x09], [CHR 0x0A], [CHR 0x0B], [CHR 0x0C], [CHR 0x0D], [CHR 0x20],
      [CHR 0xC2, CHR 0xA0], [CHR 0xE1, CHR 0x9A, CHR 0x80],
      [CHR 0xE2, CHR 0x80, CHR 0x80], [CHR 0xE2, CHR 0x80, CHR 0x81],
      [CHR 0xE2, CHR 0x80, CHR 0x82], [CHR 0xE2, CHR 0x80, CHR 0x83],
      [CHR 0xE2, CHR 0x80, CHR 0x84], [CHR 0xE2, CHR 0x80, CHR 0x85],
      [CHR 0xE2, CHR 0x80, CHR 0x86], [CHR 0xE2, CHR 0x80, CHR 0x87],
      [CHR 0xE2, CHR 0x80, CHR 0x88], [CHR 0xE2, CHR 0x80, CHR 0x89],
      [CHR 0xE2, CHR 0x80, CHR 0x8A], [CHR 0xE2, CHR 0x80, CHR 0xA8],
      [CHR 0xE2, CHR 0x80, CHR 0xA9], [CHR 0xE2, CHR 0x80, CHR 0xAF],
      [CHR 0xE2, CHR 0x81, CHR 0x9F], [CHR 0xE3, CHR 0x80, CHR 0x80],
      [CHR 0xEF, CHR 0xBB, CHR 0xBF]]"

function strip :: "string list \<Rightarrow> string \<Rightarrow> string" where
  "strip ws s =
     (case filter (\<lambda>w. w \<noteq> [] \<and> take (length w) s = w) ws of
        [] \<Rightarrow> s
      | w # _ \<Rightarrow> strip ws (drop (length w) s))"
  by pat_completeness auto
termination
proof (relation "measure (\<lambda>(ws, s). length s)")
  show "wf (measure (\<lambda>(ws, s). length s))" by simp
next
  fix ws :: "string list" and s w :: string and r
  assume "filter (\<lambda>w. w \<noteq> [] \<and> take (length w) s = w) ws = w # r"
  then have "w \<in> set (filter (\<lambda>w. w \<noteq> [] \<and> take (length w) s = w) ws)" by simp
  then have w: "w \<noteq> []" "take (length w) s = w" by simp_all
  then have "s \<noteq> []" by auto
  with w(1) show "((ws, drop (length w) s), (ws, s)) \<in> measure (\<lambda>(ws, s). length s)" by simp
qed

definition trim :: "string \<Rightarrow> string" where
  "trim s = rev (strip (map rev white_space) (rev (strip white_space s)))"

definition is_digit :: "char \<Rightarrow> bool" where
  "is_digit c = (c \<in> set ''0123456789'')"

definition number_of :: "string \<Rightarrow> nat" where
  "number_of ds = foldl (\<lambda>n c. 10 * n + (of_char c - 48)) 0 ds"

definition pow10 :: "int \<Rightarrow> rat" where
  "pow10 k = (if 0 \<le> k then 10 ^ nat k else 1 / 10 ^ nat (- k))"

text \<open>
  Whether an unsigned decimal literal denotes a number above zero: \<^verbatim>\<open>Infinity\<close>, or digits
  with at most one point and an optional exponent, whose value does not round to zero
  (it lies above half of the least double).
\<close>

definition exponent_of :: "string \<Rightarrow> int option" where
  "exponent_of x =
     (case x of
        [] \<Rightarrow> Some 0
      | e # r \<Rightarrow>
          let ds = (if take 1 r = ''+'' \<or> take 1 r = ''-'' then drop 1 r else r)
          in if ds \<noteq> [] \<and> list_all is_digit ds
             then Some (if take 1 r = ''-'' then - int (number_of ds) else int (number_of ds))
             else None)"

definition decimal_positive :: "string \<Rightarrow> bool" where
  "decimal_positive u =
     (if u = ''Infinity'' then True
      else
        let m = takeWhile (\<lambda>c. c \<noteq> CHR ''e'' \<and> c \<noteq> CHR ''E'') u;
            x = dropWhile (\<lambda>c. c \<noteq> CHR ''e'' \<and> c \<noteq> CHR ''E'') u;
            ip = takeWhile is_digit m;
            r = dropWhile is_digit m;
            fp = drop 1 r
        in (r = [] \<or> take 1 r = ''.'' \<and> list_all is_digit fp) \<and> ip @ fp \<noteq> [] \<and>
           (case exponent_of x of
              None \<Rightarrow> False
            | Some e \<Rightarrow> pow2 (- 1075) < of_nat (number_of (ip @ fp)) * pow10 (e - int (length fp))))"

text \<open>The literals with a radix prefix: digits of the radix after it, not all zero.\<close>

definition radix_positive :: "string \<Rightarrow> string \<Rightarrow> bool" where
  "radix_positive alphabet ds =
     (ds \<noteq> [] \<and> list_all (\<lambda>c. c \<in> set alphabet) ds \<and> \<not> list_all (\<lambda>c. c = CHR ''0'') ds)"

definition StringToNumber_positive :: "string \<Rightarrow> bool" where
  "StringToNumber_positive s =
     (let t = trim s
      in if take 1 t = ''+'' then decimal_positive (drop 1 t)
         else if take 1 t = ''-'' then False
         else if take 2 t = ''0x'' \<or> take 2 t = ''0X''
           then radix_positive ''0123456789abcdefABCDEF'' (drop 2 t)
         else if take 2 t = ''0o'' \<or> take 2 t = ''0O'' then radix_positive ''01234567'' (drop 2 t)
         else if take 2 t = ''0b'' \<or> take 2 t = ''0B'' then radix_positive ''01'' (drop 2 t)
         else decimal_positive t)"

text \<open>
  \<^verbatim>\<open>v > 0\<close> for a value whose conversion does not throw. An array converts to its elements'
  strings joined by commas (nothing for \<^verbatim>\<open>undefined\<close> and \<^verbatim>\<open>null\<close>), which is a number only
  for at most one element; a number's string converts back to the number.
\<close>

fun element_positive :: "jsval \<Rightarrow> bool" where
  "element_positive (JNum n) = (0 < n)"
| "element_positive (JStr s) = StringToNumber_positive s"
| "element_positive (JArr [x]) = element_positive x"
| "element_positive v = False"

fun gt0 :: "jsval \<Rightarrow> error + bool" where
  "gt0 (JBool b) = Inr b"
| "gt0 v = (if primitive_throws v then Inl TypeError else Inr (element_positive v))"

text \<open>
  \<^verbatim>\<open>v.length > 0\<close>: the length of an array or a string, an own member of an object,
  \<^verbatim>\<open>undefined\<close> on a number or a boolean.
\<close>

fun length_positive :: "jsval \<Rightarrow> error + bool" where
  "length_positive JUndefined = Inl TypeError"
| "length_positive JNull = Inl TypeError"
| "length_positive (JArr xs) = Inr (xs \<noteq> [])"
| "length_positive (JStr s) = Inr (s \<noteq> [])"
| "length_positive v = bind (get v ''length'') gt0"

section \<open>Rendering the whole tree\<close>

text \<open>
  What can throw while the three components render. React refuses an object as a child
  (an array is the list of its elements); it turns a key into a string.
\<close>

fun child_ok :: "jsval \<Rightarrow> bool" and children_ok :: "jsval list \<Rightarrow> bool" where
  "child_ok (JObj ps) = False"
| "child_ok (JArr xs) = children_ok xs"
| "child_ok v = True"
| "children_ok [] = True"
| "children_ok (x # xs) = (child_ok x \<and> children_ok xs)"

definition as_child :: "jsval \<Rightarrow> error + unit" where
  "as_child v = (if child_ok v then Inr () else Inl InvalidChild)"

definition as_key :: "jsval \<Rightarrow> error + unit" where
  "as_key v = (if primitive_throws v then Inl TypeError else Inr ())"

fun cell_ok :: "child \<Rightarrow> error + unit" where
  "cell_ok (Value v) = as_child v"
| "cell_ok c = Inr ()"

fun each :: "('a \<Rightarrow> error + unit) \<Rightarrow> 'a list \<Rightarrow> error + unit" where
  "each f [] = Inr ()"
| "each f (x # xs) = bind (f x) (\<lambda>u. each f xs)"

text \<open>
  \<^verbatim>\<open>getObjectCounts(detectionList)\<close> on whatever was received: \<^verbatim>\<open>forEach\<close> is a function on
  an array only, \<^verbatim>\<open>det.class_name\<close> throws on \<^verbatim>\<open>undefined\<close> and \<^verbatim>\<open>null\<close>, and the label is
  turned into a property key.
\<close>

definition count_one :: "jsval \<Rightarrow> error + unit" where
  "count_one det = bind (get det ''class_name'') as_key"

fun counting :: "jsval \<Rightarrow> error + unit" where
  "counting (JArr xs) = each count_one xs"
| "counting v = Inl TypeError"

text \<open>
  The stream list of SystemStats:
  \<^verbatim>\<open>streams && streams.length > 0 ? streams.map(...) : <div>No active streams</div>\<close>;
  \<^verbatim>\<open>map\<close> is a function on an array only.
\<close>

definition stream_item :: "jsval \<Rightarrow> error + unit" where
  "stream_item stream =
     bind (get stream ''id'') (\<lambda>i.
     bind (get stream ''stream_id'') (\<lambda>stream_id.
     bind (get stream ''status'') (\<lambda>status.
     bind (get stream ''frames_processed'') (\<lambda>fp.
     bind (toLocaleString fp) (\<lambda>frames.
     bind (get stream ''total_detections'') (\<lambda>td.
     bind (toLocaleString td) (\<lambda>detections.
     bind (get stream ''video_source'') (\<lambda>source.
     bind (as_key i) (\<lambda>u.
     bind (as_child stream_id) (\<lambda>u.
     bind (as_child status) (\<lambda>u. as_child source)))))))))))"

definition SystemStats_streams :: "jsval \<Rightarrow> error + unit" where
  "SystemStats_streams streams =
     (if truthy streams then
        bind (length_positive streams) (\<lambda>some.
          if some then (case streams of JArr xs \<Rightarrow> each stream_item xs | _ \<Rightarrow> Inl TypeError)
          else Inr ())
      else Inr ())"

text \<open>
  DetectionFeed: the live detection, shown when \<^verbatim>\<open>liveData && liveData.latest_detection\<close>,
  then the first eight historical detections
  (\<^verbatim>\<open>detections.slice(0, 8).map(...)\<close>; a string has \<^verbatim>\<open>slice\<close> but its result has no \<^verbatim>\<open>map\<close>).
\<close>

definition live_detection :: "jsval \<Rightarrow> error + unit" where
  "live_detection liveData =
     (if truthy liveData then
        bind (get liveData ''latest_detection'') (\<lambda>latest.
          if truthy latest then
            bind (get latest ''stream_id'') (\<lambda>stream_id.
            bind (get latest ''frame_number'') (\<lambda>frame_number.
            bind (get latest ''detections'') (\<lambda>ds.
            bind (counting ds) (\<lambda>u.
            bind (as_child stream_id) (\<lambda>u. as_child frame_number)))))
          else Inr ())
      else Inr ())"

definition detection_item :: "jsval \<Rightarrow> error + unit" where
  "detection_item detection =
     bind (get detection ''id'') (\<lambda>i.
     bind (get detection ''stream_id'') (\<lambda>stream_id.
     bind (get detection ''frame_number'') (\<lambda>frame_number.
     bind (get detection ''detections'') (\<lambda>ds.
     bind (length_positive ds) (\<lambda>some.
     bind (if some then counting ds else Inr ()) (\<lambda>u.
     bind (as_key i) (\<lambda>u.
     bind (as_child stream_id) (\<lambda>u. as_child frame_number))))))))"

definition DetectionFeed :: "jsval \<Rightarrow> jsval \<Rightarrow> error + unit" where
  "DetectionFeed detections liveData =
     bind (live_detection liveData) (\<lambda>u.
       if truthy detections then
         bind (length_positive detections) (\<lambda>some.
           if some
           then (case detections of JArr xs \<Rightarrow> each detection_item (take 8 xs)
                 | _ \<Rightarrow> Inl TypeError)
           else Inr ())
       else Inr ())"

text \<open>
  App's children: Dashboard, SystemStats (stream list and queue section) and
  DetectionFeed, and the values they hand to React as children.
\<close>

definition grid_ok :: "dashboard_view \<Rightarrow> error + unit" where
  "grid_ok view =
     (case view of
        Loading \<Rightarrow> Inr ()
      | Grid g \<Rightarrow>
          bind (cell_ok (active_streams g)) (\<lambda>u.
          bind (cell_ok (frame_queue g)) (\<lambda>u. cell_ok (results_queue g))))"

definition section_ok :: "queue_section \<Rightarrow> error + unit" where
  "section_ok q =
     (case q of
        NoSection v \<Rightarrow> Inr ()
      | QueueHealth fc rc \<Rightarrow> bind (as_child (depth fc)) (\<lambda>u. as_child (depth rc)))"

definition App :: "jsval \<Rightarrow> jsval \<Rightarrow> jsval \<Rightarrow> jsval \<Rightarrow> error + unit" where
  "App stats streams recentDetections liveData =
     bind (Dashboard stats liveData) (\<lambda>view.
     bind (SystemStats_streams streams) (\<lambda>u.
     bind (SystemStats_queues stats liveData) (\<lambda>q.
     bind (DetectionFeed recentDetections liveData) (\<lambda>u.
     bind (grid_ok view) (\<lambda>u. section_ok q)))))"

section \<open>App: state, effects and handlers\<close>

datatype endpoint = StatsEndpoint | StreamsEndpoint | DetectionsEndpoint

text \<open>
  A text received from the network, as \<^verbatim>\<open>JSON.parse\<close> and \<^verbatim>\<open>response.json()\<close> decode it:
  to a value, or not at all (a SyntaxError).
\<close>

datatype payload = NotJSON | JSON jsval

text \<open>
  How a \<^verbatim>\<open>fetch\<close> settles: rejected (no response), or resolved with a response of some
  HTTP status and body.
\<close>

datatype outcome = NetworkError | Response nat payload

datatype ready_state = CONNECTING | OPEN | CLOSING | CLOSED

datatype effect =
    FetchIssued endpoint
  | IntervalSet
  | IntervalCleared
  | SocketOpened
  | SocketCloseCalled
  | ConsoleLog string
  | ConsoleError string
  | Uncaught error

text \<open>
  The five \<^verbatim>\<open>useState\<close> cells; \<open>mounted\<close> says whether the component is mounted,
  \<open>interval\<close> whether the timer of \<^verbatim>\<open>setInterval\<close> is armed, \<open>readyState\<close> is the socket's,
  and \<open>trace\<close> lists what the component did to the outside, oldest first.
\<close>

record app =
  stats :: jsval
  streams :: jsval
  recentDetections :: jsval
  liveData :: jsval
  connected :: bool
  mounted :: bool
  interval :: bool
  readyState :: ready_state
  trace :: "effect list"

definition emit :: "effect \<Rightarrow> app \<Rightarrow> app" where
  "emit e w = w\<lparr>trace := trace w @ [e]\<rparr>"

text \<open>The three fetchers up to their first \<^verbatim>\<open>await\<close>: the request goes out.\<close>

definition fetchStats :: "app \<Rightarrow> app" where
  "fetchStats w = emit (FetchIssued StatsEndpoint) w"

definition fetchStreams :: "app \<Rightarrow> app" where
  "fetchStreams w = emit (FetchIssued StreamsEndpoint) w"

definition fetchRecentDetections :: "app \<Rightarrow> app" where
  "fetchRecentDetections w = emit (FetchIssued DetectionsEndpoint) w"

text \<open>
  Unmounting runs the two cleanups: \<^verbatim>\<open>clearInterval(interval)\<close>, then \<^verbatim>\<open>ws.close()\<close> if
  the socket is open.
\<close>

definition unmount :: "app \<Rightarrow> app" where
  "unmount w =
     (let w1 = (emit IntervalCleared w)\<lparr>interval := False, mounted := False\<rparr>
      in if readyState w1 = OPEN then (emit SocketCloseCalled w1)\<lparr>readyState := CLOSING\<rparr>
         else w1)"

text \<open>
  A setter of the mounted component stores the value, and React renders the tree again.
  An exception thrown by a render is caught by no error boundary, so React unmounts the
  tree, which runs the cleanups. An update for a component that is not mounted is
  dropped.
\<close>

definition rerender :: "app \<Rightarrow> app" where
  "rerender w =
     (case App (stats w) (streams w) (recentDetections w) (liveData w) of
        Inr u \<Rightarrow> w
      | Inl e \<Rightarrow> unmount (emit (Uncaught e) w))"

definition setStats :: "jsval \<Rightarrow> app \<Rightarrow> app" where
  "setStats data w = (if mounted w then rerender (w\<lparr>stats := data\<rparr>) else w)"

definition setStreams :: "jsval \<Rightarrow> app \<Rightarrow> app" where
  "setStreams data w = (if mounted w then rerender (w\<lparr>streams := data\<rparr>) else w)"

definition setRecentDetections :: "jsval \<Rightarrow> app \<Rightarrow> app" where
  "setRecentDetections data w =
     (if mounted w then rerender (w\<lparr>recentDetections := data\<rparr>) else w)"

definition setLiveData :: "jsval \<Rightarrow> app \<Rightarrow> app" where
  "setLiveData data w = (if mounted w then rerender (w\<lparr>liveData := data\<rparr>) else w)"

definition setConnected :: "bool \<Rightarrow> app \<Rightarrow> app" where
  "setConnected b w = (if mounted w then rerender (w\<lparr>connected := b\<rparr>) else w)"

text \<open>
  The \<^verbatim>\<open>try\<close> block after the request: \<^verbatim>\<open>await fetch(...)\<close> throws when the fetch is
  rejected, \<^verbatim>\<open>await response.json()\<close> throws when the body is not JSON; the status of
  the response is not read.
\<close>

fun awaited :: "outcome \<Rightarrow> error + jsval" where
  "awaited NetworkError = Inl TypeError"
| "awaited (Response status NotJSON) = Inl SyntaxError"
| "awaited (Response status (JSON data)) = Inr data"

definition fetchStats_settled :: "outcome \<Rightarrow> app \<Rightarrow> app" where
  "fetchStats_settled r w =
     (case awaited r of
        Inr data \<Rightarrow> setStats data w
      | Inl e \<Rightarrow> emit (ConsoleError ''Error fetching stats:'') w)"

definition fetchStreams_settled :: "outcome \<Rightarrow> app \<Rightarrow> app" where
  "fetchStreams_settled r w =
     (case awaited r of
        Inr data \<Rightarrow> setStreams data w
      | Inl e \<Rightarrow> emit (ConsoleError ''Error fetching streams:'') w)"

definition fetchRecentDetections_settled :: "outcome \<Rightarrow> app \<Rightarrow> app" where
  "fetchRecentDetections_settled r w =
     (case awaited r of
        Inr data \<Rightarrow> setRecentDetections data w
      | Inl e \<Rightarrow> emit (ConsoleError ''Error fetching detections:'') w)"

text \<open>The callback given to \<^verbatim>\<open>setInterval\<close>.\<close>

definition tick :: "app \<Rightarrow> app" where
  "tick w = fetchRecentDetections (fetchStreams (fetchStats w))"

text \<open>The four socket handlers. \<^verbatim>\<open>onmessage\<close> has no \<^verbatim>\<open>try\<close>: a SyntaxError leaves it.\<close>

definition onopen :: "app \<Rightarrow> app" where
  "onopen w = setConnected True (emit (ConsoleLog ''WebSocket connected'') w)"

fun JSON_parse :: "payload \<Rightarrow> error + jsval" where
  "JSON_parse NotJSON = Inl SyntaxError"
| "JSON_parse (JSON data) = Inr data"

definition onmessage :: "payload \<Rightarrow> app \<Rightarrow> error + app" where
  "onmessage event_data w = bind (JSON_parse event_data) (\<lambda>data. Inr (setLiveData data w))"

definition onclose :: "app \<Rightarrow> app" where
  "onclose w = setConnected False (emit (ConsoleLog ''WebSocket disconnected'') w)"

definition onerror :: "app \<Rightarrow> app" where
  "onerror w = emit (ConsoleError ''WebSocket error:'') w"

text \<open>
  Mounting: the initial cells (the first render shows the placeholders), then the two
  effects in order (three requests, the interval, the socket).
\<close>

definition initial :: app where
  "initial = \<lparr>stats = JNull, streams = JArr [], recentDetections = JArr [], liveData = JNull,
              connected = False, mounted = False, interval = False, readyState = CLOSED,
              trace = []\<rparr>"

definition mount :: app where
  "mount =
     (emit SocketOpened
       ((emit IntervalSet (fetchRecentDetections (fetchStreams (fetchStats initial))))
          \<lparr>mounted := True, interval := True\<rparr>))
       \<lparr>readyState := CONNECTING\<rparr>"

text \<open>
  What the browser can deliver to the component. The timer's callback runs only while
  the interval is armed; an exception that leaves a handler ends that handler, is
  reported, and changes nothing else; the cleanups of a mounted component run once.
\<close>

datatype event =
    Tick
  | Settled endpoint outcome
  | WsOpen
  | WsMessage payload
  | WsClose
  | WsError
  | Unmount

fun dispatch :: "event \<Rightarrow> app \<Rightarrow> app" where
  "dispatch Tick w = (if interval w then tick w else w)"
| "dispatch (Settled StatsEndpoint r) w = fetchStats_settled r w"
| "dispatch (Settled StreamsEndpoint r) w = fetchStreams_settled r w"
| "dispatch (Settled DetectionsEndpoint r) w = fetchRecentDetections_settled r w"
| "dispatch WsOpen w = onopen (w\<lparr>readyState := OPEN\<rparr>)"
| "dispatch (WsMessage d) w =
     (case onmessage d w of Inr w' \<Rightarrow> w' | Inl e \<Rightarrow> emit (Uncaught e) w)"
| "dispatch WsClose w = onclose (w\<lparr>readyState := CLOSED\<rparr>)"
| "dispatch WsError w = onerror w"
| "dispatch Unmount w = (if mounted w then unmount w else w)"

definition run :: "event list \<Rightarrow> app \<Rightarrow> app" where
  "run evs w = fold dispatch evs w"

text \<open>The requests and the connections in a trace.\<close>

definition issued :: "app \<Rightarrow> endpoint list" where
  "issued w = concat (map (\<lambda>e. case e of FetchIssued ep \<Rightarrow> [ep] | _ \<Rightarrow> []) (trace w))"

definition connections :: "app \<Rightarrow> nat" where
  "connections w = count_list (trace w) SocketOpened"

text \<open>The five cells the view reads.\<close>

definition cells :: "app \<Rightarrow> jsval \<times> jsval \<times> jsval \<times> jsval \<times> bool" where
  "cells w = (stats w, streams w, recentDetections w, liveData w, connected w)"

section \<open>Inputs used in the examples\<close>

text \<open>The \<^verbatim>\<open>/stats\<close> payload of the end-to-end scenario.\<close>

definition snapshot :: jsval where
  "snapshot =
     JObj [(''total_frames_processed'', JNum 100), (''total_detections'', JNum 50),
           (''active_streams'', JNum 2), (''frame_queue_size'', JNum 3),
           (''results_queue_size'', JNum 1)]"

text \<open>A live frame that reports both queues empty.\<close>

definition idle_queues :: jsval where
  "idle_queues = JObj [(''frame_queue_size'', JNum 0), (''results_queue_size'', JNum 0)]"

text \<open>A snapshot arrives, the socket opens, the live frame arrives.\<close>

definition stale_run :: app where
  "stale_run =
     run [Settled StatsEndpoint (Response 200 (JSON snapshot)), WsOpen,
          WsMessage (JSON idle_queues)] mount"

text \<open>The live frame arrives, but the only \<^verbatim>\<open>/stats\<close> request so far was rejected.\<close>

definition live_only :: app where
  "live_only =
     run [WsOpen, WsMessage (JSON idle_queues), Settled StatsEndpoint NetworkError, Tick] mount"

text \<open>The events that give \<^verbatim>\<open>setStats\<close> a value: a \<^verbatim>\<open>/stats\<close> response with a JSON body.\<close>

fun stores_stats :: "event \<Rightarrow> bool" where
  "stores_stats (Settled StatsEndpoint (Response status (JSON data))) = True"
| "stores_stats ev = False"

text \<open>
  The spec's successful poll of \<^verbatim>\<open>/stats\<close>: a response of a success status (2xx) with a
  JSON body. It follows the spec's words and is compared with \<open>stores_stats\<close>.
\<close>

fun spec_successful_stats_poll :: "event \<Rightarrow> bool" where
  "spec_successful_stats_poll (Settled StatsEndpoint (Response status (JSON data))) =
     (200 \<le> status \<and> status < 300)"
| "spec_successful_stats_poll ev = False"

text \<open>The live frame arrives, then a \<^verbatim>\<open>/stats\<close> response of status 500 with the payload.\<close>

definition unsuccessful_run :: app where
  "unsuccessful_run =
     run [WsOpen, WsMessage (JSON idle_queues),
          Settled StatsEndpoint (Response 500 (JSON snapshot))] mount"

text \<open>A live frame of the detection kind, and the live frame of the end-to-end scenario.\<close>

definition detection_event :: jsval where
  "detection_event =
     JObj [(''latest_detection'',
            JObj [(''stream_id'', JStr ''cam1''), (''frame_number'', JNum 7),
                  (''detections'', JArr [JObj [(''class_name'', JStr ''car'')]])])]"

definition busy_queues :: jsval where
  "busy_queues = JObj [(''frame_queue_size'', JNum 7), (''results_queue_size'', JNum 1)]"

definition busy_grid :: stat_grid where
  "busy_grid =
     \<lparr>total_frames = LocaleString (JNum 100), total_detections = LocaleString (JNum 50),
      active_streams = Value (JNum 2), frame_queue = Value (JNum 7),
      results_queue = Value (JNum 1), avg_detections_per_frame = Text ''0.5''\<rparr>"

text \<open>The grid of the scenario before any live frame has arrived.\<close>

definition quiet_grid :: stat_grid where
  "quiet_grid =
     \<lparr>total_frames = LocaleString (JNum 100), total_detections = LocaleString (JNum 50),
      active_streams = Value (JNum 2), frame_queue = Value (JNum 3),
      results_queue = Value (JNum 1), avg_detections_per_frame = Text ''0.5''\<rparr>"

text \<open>A frame of neither shape.\<close>

definition unknown_frame :: jsval where
  "unknown_frame = JObj [(''foo'', JNum 1)]"

text \<open>A \<^verbatim>\<open>/streams\<close> payload, the body of an error response, and the state after one poll.\<close>

definition roster :: jsval where
  "roster =
     JArr [JObj [(''id'', JNum 1), (''stream_id'', JStr ''cam1''), (''status'', JStr ''active''),
                 (''frames_processed'', JNum 100), (''total_detections'', JNum 50),
                 (''video_source'', JStr ''0'')]]"

definition error_body :: jsval where
  "error_body = JObj [(''detail'', JStr ''Internal Server Error'')]"

definition polled :: app where
  "polled = run [Settled StreamsEndpoint (Response 200 (JSON roster))] mount"

text \<open>Snapshots with one detection in three frames, and with no frame at all.\<close>

definition thirds :: jsval where
  "thirds =
     JObj [(''total_frames_processed'', JNum 3), (''total_detections'', JNum 1),
           (''active_streams'', JNum 1), (''frame_queue_size'', JNum 0),
           (''results_queue_size'', JNum 0)]"

definition no_frames :: jsval where
  "no_frames =
     JObj [(''total_frames_processed'', JNum 0), (''total_detections'', JNum 0),
           (''active_streams'', JNum 0), (''frame_queue_size'', JNum 0),
           (''results_queue_size'', JNum 0)]"

text \<open>The detections \<^verbatim>\<open>[{class_name: k}, ...]\<close> of a list of labels.\<close>

definition labelled :: "string list \<Rightarrow> detection list" where
  "labelled ks = map (\<lambda>k. \<lparr>class_name = k\<rparr>) ks"

section \<open>Properties\<close>

subsection \<open>Reads and cells\<close>

lemma get_Inr_truthy: "get v k = Inr x \<Longrightarrow> x \<noteq> JUndefined \<Longrightarrow> truthy v"
  by (cases v) auto

lemma get_opt_get: "get v k = Inr x \<Longrightarrow> get_opt v k = Inr x"
  by (cases v) auto

lemma get_total: "truthy v \<Longrightarrow> \<exists>x. get v k = Inr x"
  by (cases v) simp_all

lemma queue_depth_total: "truthy s \<Longrightarrow> \<exists>x. queue_depth s l k = Inr x"
  by (simp add: queue_depth_def get_total)

lemma get_opt_total: "\<exists>x. get_opt l k = Inr x"
  by (cases l) simp_all

lemma queue_health_total: "truthy s \<Longrightarrow> \<exists>h. queue_health s l k = Inr h"
proof -
  assume s: "truthy s"
  obtain a where a: "get_opt l k = Inr a" using get_opt_total by blast
  obtain b where b: "get s k = Inr b" using get_total [OF s] by blast
  show ?thesis by (simp add: queue_health_def a b)
qed

lemma stale_cell:
  assumes l: "get l k = Inr (JNum 0)" and s: "get s k = Inr (JNum n)" and n: "0 < n"
  shows "queue_depth s l k = Inr (JNum 0) \<and> queue_health s l k = Inr Backlog"
proof -
  have tl: "truthy l" using l by (rule get_Inr_truthy) simp
  have "get_opt l k = Inr (JNum 0)" using l by (rule get_opt_get)
  then show ?thesis using tl l s n by (simp add: queue_depth_def queue_health_def)
qed

subsection \<open>Setters, renders and cleanups\<close>

lemma emit_cells [simp]:
  "stats (emit e w) = stats w" "streams (emit e w) = streams w"
  "recentDetections (emit e w) = recentDetections w" "liveData (emit e w) = liveData w"
  "connected (emit e w) = connected w" "mounted (emit e w) = mounted w"
  "interval (emit e w) = interval w" "readyState (emit e w) = readyState w"
  "trace (emit e w) = trace w @ [e]"
  by (simp_all add: emit_def)

lemma unmount_cells [simp]:
  "stats (unmount w) = stats w" "streams (unmount w) = streams w"
  "recentDetections (unmount w) = recentDetections w" "liveData (unmount w) = liveData w"
  "connected (unmount w) = connected w" "mounted (unmount w) = False"
  "interval (unmount w) = False"
  by (simp_all add: unmount_def Let_def)

lemma rerender_cells [simp]:
  "stats (rerender w) = stats w" "streams (rerender w) = streams w"
  "recentDetections (rerender w) = recentDetections w" "liveData (rerender w) = liveData w"
  "connected (rerender w) = connected w"
  by (simp_all add: rerender_def split: sum.splits)

lemma rerender_flags:
  "mounted (rerender w) \<Longrightarrow> mounted w" "interval (rerender w) \<Longrightarrow> interval w"
  by (simp_all add: rerender_def split: sum.splits)

lemmas setters =
  setStats_def setStreams_def setRecentDetections_def setLiveData_def setConnected_def

lemma setters_flags:
  "mounted (setStats v w) \<Longrightarrow> mounted w" "interval (setStats v w) \<Longrightarrow> interval w"
  "mounted (setStreams v w) \<Longrightarrow> mounted w" "interval (setStreams v w) \<Longrightarrow> interval w"
  "mounted (setRecentDetections v w) \<Longrightarrow> mounted w"
  "interval (setRecentDetections v w) \<Longrightarrow> interval w"
  "mounted (setLiveData v w) \<Longrightarrow> mounted w" "interval (setLiveData v w) \<Longrightarrow> interval w"
  "mounted (setConnected b w) \<Longrightarrow> mounted w" "interval (setConnected b w) \<Longrightarrow> interval w"
  by (auto simp: setters split: if_splits dest: rerender_flags)

lemma setters_unmounted:
  "\<not> mounted w \<Longrightarrow> setStats v w = w" "\<not> mounted w \<Longrightarrow> setStreams v w = w"
  "\<not> mounted w \<Longrightarrow> setRecentDetections v w = w" "\<not> mounted w \<Longrightarrow> setLiveData v w = w"
  "\<not> mounted w \<Longrightarrow> setConnected b w = w"
  by (simp_all add: setters)

lemma setters_cells:
  "cells (setStats v w) = cells (if mounted w then w\<lparr>stats := v\<rparr> else w)"
  "cells (setStreams v w) = cells (if mounted w then w\<lparr>streams := v\<rparr> else w)"
  "cells (setRecentDetections v w) = cells (if mounted w then w\<lparr>recentDetections := v\<rparr> else w)"
  "cells (setLiveData v w) = cells (if mounted w then w\<lparr>liveData := v\<rparr> else w)"
  "cells (setConnected b w) = cells (if mounted w then w\<lparr>connected := b\<rparr> else w)"
  by (simp_all add: setters cells_def)


subsection \<open>A queue shown empty and flagged as backlog\<close>

text \<open>
  C9. When the live frame reports a queue's depth as 0 and the snapshot reports a
  positive depth for the same queue, the card of that queue shows the depth 0 next to
  the backlog indicator: the indicator takes the snapshot's value whenever the live value
  is falsy. This holds for the frame queue and for the results queue.
\<close>

theorem zero_depth_shown_with_backlog:
  "(get l ''frame_queue_size'' = Inr (JNum 0) \<and> get s ''frame_queue_size'' = Inr (JNum n) \<and> 0 < n
      \<longrightarrow> (\<exists>fc rc. SystemStats_queues s l = Inr (QueueHealth fc rc) \<and>
             depth fc = JNum 0 \<and> indicator fc = Backlog)) \<and>
   (get l ''results_queue_size'' = Inr (JNum 0) \<and> get s ''results_queue_size'' = Inr (JNum n) \<and> 0 < n
      \<longrightarrow> (\<exists>fc rc. SystemStats_queues s l = Inr (QueueHealth fc rc) \<and>
             depth rc = JNum 0 \<and> indicator rc = Backlog))"
proof (intro conjI impI)
  assume h: "get l ''frame_queue_size'' = Inr (JNum 0) \<and> get s ''frame_queue_size'' = Inr (JNum n) \<and> 0 < n"
  then have ts: "truthy s" by (auto intro: get_Inr_truthy)
  from h have c: "queue_depth s l ''frame_queue_size'' = Inr (JNum 0)"
      "queue_health s l ''frame_queue_size'' = Inr Backlog"
    using stale_cell by blast+
  obtain rd where rd: "queue_depth s l ''results_queue_size'' = Inr rd"
    using queue_depth_total [OF ts] by blast
  obtain rh where rh: "queue_health s l ''results_queue_size'' = Inr rh"
    using queue_health_total [OF ts] by blast
  show "\<exists>fc rc. SystemStats_queues s l = Inr (QueueHealth fc rc) \<and> depth fc = JNum 0 \<and> indicator fc = Backlog"
    by (simp add: SystemStats_queues_def ts c rd rh)
next
  assume h: "get l ''results_queue_size'' = Inr (JNum 0) \<and> get s ''results_queue_size'' = Inr (JNum n) \<and> 0 < n"
  then have ts: "truthy s" by (auto intro: get_Inr_truthy)
  from h have c: "queue_depth s l ''results_queue_size'' = Inr (JNum 0)"
      "queue_health s l ''results_queue_size'' = Inr Backlog"
    using stale_cell by blast+
  obtain fd where fd: "queue_depth s l ''frame_queue_size'' = Inr fd"
    using queue_depth_total [OF ts] by blast
  obtain fh where fh: "queue_health s l ''frame_queue_size'' = Inr fh"
    using queue_health_total [OF ts] by blast
  show "\<exists>fc rc. SystemStats_queues s l = Inr (QueueHealth fc rc) \<and> depth rc = JNum 0 \<and> indicator rc = Backlog"
    by (simp add: SystemStats_queues_def ts c fd fh)
qed

lemma stale_run_cells: "stats stale_run = snapshot \<and> liveData stale_run = idle_queues"
  by code_simp

theorem zero_depth_shown_with_backlog_witness:
  "\<exists>fc rc. SystemStats_queues (stats stale_run) (liveData stale_run) = Inr (QueueHealth fc rc) \<and>
     depth fc = JNum 0 \<and> indicator fc = Backlog \<and> depth rc = JNum 0 \<and> indicator rc = Backlog"
proof -
  have c: "stats stale_run = snapshot" "liveData stale_run = idle_queues"
    using stale_run_cells by simp_all
  have f: "\<exists>fc rc. SystemStats_queues snapshot idle_queues = Inr (QueueHealth fc rc) \<and>
             depth fc = JNum 0 \<and> indicator fc = Backlog"
    using zero_depth_shown_with_backlog [of idle_queues snapshot 3]
    by (simp add: snapshot_def idle_queues_def)
  have r: "\<exists>fc rc. SystemStats_queues snapshot idle_queues = Inr (QueueHealth fc rc) \<and>
             depth rc = JNum 0 \<and> indicator rc = Backlog"
    using zero_depth_shown_with_backlog [of idle_queues snapshot 1]
    by (simp add: snapshot_def idle_queues_def)
  from f r show ?thesis unfolding c by auto
qed

subsection \<open>The trace of a component whose timer is cleared\<close>

lemma issued_emit:
  "issued (emit e w) = issued w @ (case e of FetchIssued ep \<Rightarrow> [ep] | _ \<Rightarrow> [])"
  by (simp add: issued_def emit_def)

lemma issued_update [simp]:
  "issued (w\<lparr>stats := v\<rparr>) = issued w" "issued (w\<lparr>streams := v\<rparr>) = issued w"
  "issued (w\<lparr>recentDetections := v\<rparr>) = issued w" "issued (w\<lparr>liveData := v\<rparr>) = issued w"
  "issued (w\<lparr>connected := b\<rparr>) = issued w" "issued (w\<lparr>mounted := b\<rparr>) = issued w"
  "issued (w\<lparr>interval := b\<rparr>) = issued w" "issued (w\<lparr>readyState := r\<rparr>) = issued w"
  by (simp_all add: issued_def)

lemma unmount_issued [simp]: "issued (unmount w) = issued w"
  by (simp add: unmount_def Let_def issued_emit)

lemma rerender_issued [simp]: "issued (rerender w) = issued w"
  by (simp add: rerender_def issued_emit split: sum.splits)

lemma setters_issued [simp]:
  "issued (setStats v w) = issued w" "issued (setStreams v w) = issued w"
  "issued (setRecentDetections v w) = issued w" "issued (setLiveData v w) = issued w"
  "issued (setConnected b w) = issued w"
  by (simp_all add: setters)

lemma dispatch_disarmed:
  assumes "\<not> interval w"
  shows "\<not> interval (dispatch ev w) \<and> issued (dispatch ev w) = issued w"
proof (cases ev)
  case (Settled ep r)
  then show ?thesis using assms
    by (cases ep; cases "awaited r")
      (auto simp: fetchStats_settled_def fetchStreams_settled_def
        fetchRecentDetections_settled_def issued_emit dest: setters_flags)
next
  case (WsMessage d)
  then show ?thesis using assms
    by (cases d) (auto simp: onmessage_def issued_emit dest: setters_flags)
qed (use assms in \<open>auto simp: onopen_def onclose_def onerror_def issued_emit
      dest!: setters_flags\<close>)

lemma run_disarmed:
  "\<not> interval w \<Longrightarrow> \<not> interval (run evs w) \<and> issued (run evs w) = issued w"
proof (induction evs arbitrary: w)
  case Nil
  then show ?case by (simp add: run_def)
next
  case (Cons ev evs)
  have d: "\<not> interval (dispatch ev w)" "issued (dispatch ev w) = issued w"
    using dispatch_disarmed [OF Cons.prems] by simp_all
  have "run (ev # evs) w = run evs (dispatch ev w)" by (simp add: run_def)
  then show ?case using Cons.IH [OF d(1)] d(2) by simp
qed

text \<open>
  C6. Once the component is unmounted (the cleanup has called \<^verbatim>\<open>clearInterval\<close>), no
  request is issued any more, whatever events follow and however many timer periods
  pass: the requests issued stay those issued before, and the timer stays cleared.
\<close>

theorem no_fetch_after_unmount:
  "issued (run evs (unmount w)) = issued w \<and> interval (run evs (unmount w)) = False"
  using run_disarmed [of "unmount w" evs] by simp

subsection \<open>Nothing about the queues before the first snapshot\<close>

lemma setters_stats [simp]:
  "stats (setStreams v w) = stats w" "stats (setRecentDetections v w) = stats w"
  "stats (setLiveData v w) = stats w" "stats (setConnected b w) = stats w"
  by (simp_all add: setters)

lemma dispatch_keeps_stats:
  "\<not> stores_stats ev \<Longrightarrow> stats (dispatch ev w) = stats w"
proof (cases ev)
  case (Settled ep r)
  assume n: "\<not> stores_stats ev"
  show ?thesis
  proof (cases ep)
    case StatsEndpoint
    with n Settled have "\<exists>e. awaited r = Inl e"
      by (cases r rule: awaited.cases) simp_all
    then show ?thesis using Settled StatsEndpoint by (auto simp: fetchStats_settled_def)
  qed (use Settled in \<open>simp_all add: fetchStreams_settled_def fetchRecentDetections_settled_def
         split: sum.splits\<close>)
next
  case (WsMessage d)
  then show ?thesis by (cases d) (simp_all add: onmessage_def)
qed (simp_all add: onopen_def onclose_def onerror_def tick_def fetchStats_def fetchStreams_def
      fetchRecentDetections_def)

lemma run_keeps_stats:
  "filter stores_stats evs = [] \<Longrightarrow> stats (run evs w) = stats w"
proof (induction evs arbitrary: w)
  case Nil
  then show ?case by (simp add: run_def)
next
  case (Cons ev evs)
  from Cons.prems have n: "\<not> stores_stats ev" and r: "filter stores_stats evs = []"
    by (auto split: if_splits)
  have "run (ev # evs) w = run evs (dispatch ev w)" by (simp add: run_def)
  then show ?case using Cons.IH [OF r] dispatch_keeps_stats [OF n] by simp
qed

lemma mount_stats: "stats mount = JNull"
  by (simp add: mount_def initial_def fetchStats_def fetchStreams_def fetchRecentDetections_def)

text \<open>
  C10, as stated, fails in its last part: after the live frame and a \<^verbatim>\<open>/stats\<close> response
  of status 500 whose body is the payload, no poll has been successful, and the dashboard
  shows the live queue depths.
\<close>

theorem unsuccessful_poll_shows_depths:
  "filter spec_successful_stats_poll
     [WsOpen, WsMessage (JSON idle_queues),
      Settled StatsEndpoint (Response 500 (JSON snapshot))] = [] \<and>
   Dashboard (stats unsuccessful_run) (liveData unsuccessful_run) =
     Inr (Grid \<lparr>total_frames = LocaleString (JNum 100), total_detections = LocaleString (JNum 50),
                 active_streams = Value (JNum 2), frame_queue = Value (JNum 0),
                 results_queue = Value (JNum 0), avg_detections_per_frame = Text ''0.5''\<rparr>)"
  by code_simp

text \<open>
  C10, amended. While \<^verbatim>\<open>stats\<close> is \<^verbatim>\<open>null\<close>, the dashboard is the loading placeholder alone
  and the system-status card has no queue section, whatever the live data; and \<^verbatim>\<open>stats\<close>
  stays \<^verbatim>\<open>null\<close> from mounting on until a \<^verbatim>\<open>/stats\<close> response with a JSON body has arrived,
  of whatever status.
\<close>

theorem no_snapshot_no_queue_depth:
  "(stats w = JNull \<longrightarrow>
      Dashboard (stats w) (liveData w) = Inr Loading \<and>
      SystemStats_queues (stats w) (liveData w) = Inr (NoSection JNull)) \<and>
   (filter stores_stats evs = [] \<longrightarrow> stats (run evs mount) = JNull)"
  by (simp add: Dashboard_def SystemStats_queues_def run_keeps_stats mount_stats)

theorem no_snapshot_no_queue_depth_witness:
  "liveData live_only = idle_queues \<and> stats live_only = JNull \<and>
   Dashboard (stats live_only) (liveData live_only) = Inr Loading \<and>
   SystemStats_queues (stats live_only) (liveData live_only) = Inr (NoSection JNull)"
proof -
  have l: "liveData live_only = idle_queues" by code_simp
  have "filter stores_stats [WsOpen, WsMessage (JSON idle_queues), Settled StatsEndpoint NetworkError, Tick] = []"
    by simp
  with no_snapshot_no_queue_depth [of live_only "[WsOpen, WsMessage (JSON idle_queues), Settled StatsEndpoint NetworkError, Tick]"]
  show ?thesis using l by (simp add: live_only_def)
qed


subsection \<open>Which source a queue depth is read from\<close>

lemma bind_Inr: "bind m f = Inr y \<longleftrightarrow> (\<exists>x. m = Inr x \<and> f x = Inr y)"
  by (cases m) simp_all

lemma toLocaleString_Inr: "toLocaleString v = Inr c \<Longrightarrow> c = LocaleString v"
  by (cases v) (simp_all split: if_splits)

text \<open>
  C1, as stated, fails: with the scenario's snapshot and a live frame of the detection
  kind, the spec's rule gives the snapshot's frame-queue depth 3, while the dashboard
  reads the depth from the live frame, which has none.
\<close>

theorem detection_event_blanks_depth:
  "\<not> spec_queue_depth_kind detection_event \<and>
   spec_queue_depth snapshot detection_event ''frame_queue_size'' = Inr (JNum 3) \<and>
   Dashboard snapshot detection_event =
     Inr (Grid \<lparr>total_frames = LocaleString (JNum 100), total_detections = LocaleString (JNum 50),
                 active_streams = Value (JNum 2), frame_queue = Value JUndefined,
                 results_queue = Value JUndefined, avg_detections_per_frame = Text ''0.5''\<rparr>)"
  by code_simp

text \<open>
  C1, amended. Whenever the dashboard shows its grid, both queue depths come from the
  live data if that is truthy (whatever its shape, so a depth it lacks is \<^verbatim>\<open>undefined\<close>)
  and from the snapshot otherwise; the system-status card shows the same two depths;
  the totals and the stream count come from the snapshot whatever the live data.
\<close>

theorem displayed_queue_depths:
  assumes "Dashboard s l = Inr (Grid g)"
  shows "\<exists>fq rq tf td n.
           (if truthy l then get l ''frame_queue_size'' else get s ''frame_queue_size'') = Inr fq \<and>
           (if truthy l then get l ''results_queue_size'' else get s ''results_queue_size'') = Inr rq \<and>
           frame_queue g = Value fq \<and> results_queue g = Value rq \<and>
           get s ''total_frames_processed'' = Inr tf \<and> total_frames g = LocaleString tf \<and>
           get s ''total_detections'' = Inr td \<and> total_detections g = LocaleString td \<and>
           get s ''active_streams'' = Inr n \<and> active_streams g = Value n \<and>
           (\<exists>fc rc. SystemStats_queues s l = Inr (QueueHealth fc rc) \<and>
              depth fc = fq \<and> depth rc = rq)"
proof -
  have ts: "truthy s" using assms by (auto simp: Dashboard_def split: if_splits)
  from assms ts obtain tf c1 td c2 n fq rq where
    g: "get s ''total_frames_processed'' = Inr tf" "toLocaleString tf = Inr c1"
       "get s ''total_detections'' = Inr td" "toLocaleString td = Inr c2"
       "get s ''active_streams'' = Inr n"
       "queue_depth s l ''frame_queue_size'' = Inr fq"
       "queue_depth s l ''results_queue_size'' = Inr rq"
    and gd: "g = \<lparr>total_frames = c1, total_detections = c2, active_streams = Value n,
              frame_queue = Value fq, results_queue = Value rq,
              avg_detections_per_frame = avg_detections td tf\<rparr>"
    unfolding Dashboard_def by (auto simp: bind_Inr)
  obtain fh where fh: "queue_health s l ''frame_queue_size'' = Inr fh"
    using queue_health_total [OF ts] by blast
  obtain rh where rh: "queue_health s l ''results_queue_size'' = Inr rh"
    using queue_health_total [OF ts] by blast
  have q: "SystemStats_queues s l =
      Inr (QueueHealth \<lparr>depth = fq, indicator = fh\<rparr> \<lparr>depth = rq, indicator = rh\<rparr>)"
    by (simp add: SystemStats_queues_def ts g fh rh)
  have c: "c1 = LocaleString tf" "c2 = LocaleString td"
    using g toLocaleString_Inr by blast+
  from g(6,7) have d: "(if truthy l then get l ''frame_queue_size'' else get s ''frame_queue_size'') = Inr fq"
    "(if truthy l then get l ''results_queue_size'' else get s ''results_queue_size'') = Inr rq"
    by (simp_all add: queue_depth_def)
  show ?thesis
    apply (rule exI [of _ fq], rule exI [of _ rq], rule exI [of _ tf], rule exI [of _ td],
        rule exI [of _ n])
    using d g(1,3,5) c q by (simp add: gd)
qed

lemma busy_dashboard: "Dashboard snapshot busy_queues = Inr (Grid busy_grid)"
  by code_simp

lemma quiet_dashboard: "Dashboard snapshot JNull = Inr (Grid quiet_grid)"
  by code_simp

theorem displayed_queue_depths_witness:
  "Dashboard snapshot JNull = Inr (Grid quiet_grid) \<and>
   frame_queue quiet_grid = Value (JNum 3) \<and> total_frames quiet_grid = LocaleString (JNum 100) \<and>
   Dashboard snapshot busy_queues = Inr (Grid busy_grid) \<and>
   frame_queue busy_grid = Value (JNum 7) \<and> results_queue busy_grid = Value (JNum 1) \<and>
   total_frames busy_grid = LocaleString (JNum 100) \<and>
   (\<exists>fc rc. SystemStats_queues snapshot busy_queues = Inr (QueueHealth fc rc) \<and>
      depth fc = JNum 7 \<and> depth rc = JNum 1)"
proof -
  have "frame_queue quiet_grid = Value (JNum 3) \<and> total_frames quiet_grid = LocaleString (JNum 100)"
    using displayed_queue_depths [OF quiet_dashboard]
    by (auto simp: snapshot_def quiet_grid_def)
  moreover have "frame_queue busy_grid = Value (JNum 7) \<and> results_queue busy_grid = Value (JNum 1) \<and>
      total_frames busy_grid = LocaleString (JNum 100) \<and>
      (\<exists>fc rc. SystemStats_queues snapshot busy_queues = Inr (QueueHealth fc rc) \<and>
         depth fc = JNum 7 \<and> depth rc = JNum 1)"
    using displayed_queue_depths [OF busy_dashboard]
    by (auto simp: busy_queues_def snapshot_def busy_grid_def)
  ultimately show ?thesis using quiet_dashboard busy_dashboard by simp
qed

subsection \<open>The socket: one connection, no reconnect\<close>

lemma connections_emit:
  "connections (emit e w) = connections w + (if e = SocketOpened then 1 else 0)"
  by (simp add: connections_def emit_def)

lemma connections_update [simp]:
  "connections (w\<lparr>stats := v\<rparr>) = connections w" "connections (w\<lparr>streams := v\<rparr>) = connections w"
  "connections (w\<lparr>recentDetections := v\<rparr>) = connections w" "connections (w\<lparr>liveData := v\<rparr>) = connections w"
  "connections (w\<lparr>connected := b\<rparr>) = connections w" "connections (w\<lparr>mounted := b\<rparr>) = connections w"
  "connections (w\<lparr>interval := b\<rparr>) = connections w" "connections (w\<lparr>readyState := r\<rparr>) = connections w"
  by (simp_all add: connections_def)

lemma unmount_connections [simp]: "connections (unmount w) = connections w"
  by (simp add: unmount_def Let_def connections_emit)

lemma rerender_connections [simp]: "connections (rerender w) = connections w"
  by (simp add: rerender_def connections_emit split: sum.splits)

lemma setters_connections [simp]:
  "connections (setStats v w) = connections w" "connections (setStreams v w) = connections w"
  "connections (setRecentDetections v w) = connections w"
  "connections (setLiveData v w) = connections w" "connections (setConnected b w) = connections w"
  by (simp_all add: setters)

lemma dispatch_connections: "connections (dispatch ev w) = connections w"
proof (cases ev)
  case (Settled ep r)
  then show ?thesis
    by (cases ep) (simp_all add: fetchStats_settled_def fetchStreams_settled_def
        fetchRecentDetections_settled_def connections_emit split: sum.splits)
next
  case (WsMessage d)
  then show ?thesis by (cases d) (simp_all add: onmessage_def connections_emit)
qed (simp_all add: onopen_def onclose_def onerror_def tick_def fetchStats_def fetchStreams_def
      fetchRecentDetections_def connections_emit)

lemma run_connections: "connections (run evs w) = connections w"
proof (induction evs arbitrary: w)
  case Nil
  show ?case by (simp add: run_def)
next
  case (Cons ev evs)
  have "run (ev # evs) w = run evs (dispatch ev w)" by (simp add: run_def)
  then show ?case using Cons.IH [of "dispatch ev w"] by (simp add: dispatch_connections)
qed

lemma initial_connections: "connections initial = 0"
  by (simp add: initial_def connections_def)

lemma mount_connections: "connections mount = 1"
  by (simp add: mount_def fetchStats_def fetchStreams_def fetchRecentDetections_def
      connections_emit initial_connections)

lemma rerender_trace:
  "trace (rerender w) =
     trace w @
     (case App (stats w) (streams w) (recentDetections w) (liveData w) of
        Inr u \<Rightarrow> []
      | Inl e \<Rightarrow>
          Uncaught e # IntervalCleared # (if readyState w = OPEN then [SocketCloseCalled] else []))"
  by (simp add: rerender_def unmount_def Let_def split: sum.splits)

text \<open>
  C2, as stated, fails: after the socket has opened, an error event leaves the
  component connected and does nothing but log; and after a close event no second
  connection is opened, however many timer periods pass.
\<close>

theorem error_event_stays_connected:
  "connected (run [WsOpen, WsError] mount) \<and>
   trace (run [WsOpen, WsError] mount) =
     trace (run [WsOpen] mount) @ [ConsoleError ''WebSocket error:''] \<and>
   connected (run [WsOpen, WsClose, Tick, Tick] mount) = False \<and>
   connections (run [WsOpen, WsClose, Tick, Tick] mount) = 1"
  by code_simp

text \<open>
  C2, amended. A close event logs and sets \<open>connected\<close> to false, once (for a component
  that is no longer mounted the update is dropped), and does nothing else as long as the
  tree renders; an error event only logs and changes no cell; and no event ever opens a
  connection: under every sequence of events the component has opened exactly the one
  socket of its mounting.
\<close>

theorem one_connection_ever:
  "connections (run evs mount) = 1 \<and>
   connected (dispatch WsClose w) = (if mounted w then False else connected w) \<and>
   trace (dispatch WsClose w) =
     trace w @ [ConsoleLog ''WebSocket disconnected''] @
     (if mounted w
      then (case App (stats w) (streams w) (recentDetections w) (liveData w) of
              Inr u \<Rightarrow> []
            | Inl e \<Rightarrow> [Uncaught e, IntervalCleared])
      else []) \<and>
   cells (dispatch WsError w) = cells w \<and>
   trace (dispatch WsError w) = trace w @ [ConsoleError ''WebSocket error:'']"
  by (simp add: run_connections mount_connections onclose_def onerror_def cells_def
      setConnected_def rerender_trace split: sum.splits)

subsection \<open>Live frames\<close>

text \<open>
  C3, as stated, fails: a frame of neither recognized shape is not dropped, it becomes
  the live data.
\<close>

theorem unrecognized_frame_published:
  "\<not> spec_recognized unknown_frame \<and> liveData mount = JNull \<and>
   liveData (dispatch (WsMessage (JSON unknown_frame)) mount) = unknown_frame"
  by code_simp

text \<open>
  C3, amended. A frame that does not decode changes none of the cells (the live data,
  the connection state and the snapshots stay); a frame that decodes becomes the live
  data of the mounted component whatever its shape, and changes no other cell.
\<close>

theorem frames_by_decoding:
  "cells (dispatch (WsMessage NotJSON) w) = cells w \<and>
   liveData (dispatch (WsMessage (JSON data)) w) = (if mounted w then data else liveData w) \<and>
   connected (dispatch (WsMessage (JSON data)) w) = connected w \<and>
   stats (dispatch (WsMessage (JSON data)) w) = stats w \<and>
   streams (dispatch (WsMessage (JSON data)) w) = streams w \<and>
   recentDetections (dispatch (WsMessage (JSON data)) w) = recentDetections w"
  by (simp add: onmessage_def cells_def setLiveData_def)

text \<open>
  A frame on which DetectionFeed throws: the tree is unmounted, the timer cleared and
  the socket closed.
\<close>

lemma broken_frame_unmounts:
  "App JNull (JArr []) (JArr []) (JObj [(''latest_detection'', JObj [])]) = Inl TypeError \<and>
   mounted (run [WsOpen, WsMessage (JSON (JObj [(''latest_detection'', JObj [])]))] mount) = False \<and>
   interval (run [WsOpen, WsMessage (JSON (JObj [(''latest_detection'', JObj [])]))] mount) = False \<and>
   readyState (run [WsOpen, WsMessage (JSON (JObj [(''latest_detection'', JObj [])]))] mount) = CLOSING"
  by code_simp

subsection \<open>Polls\<close>

text \<open>
  C4, as stated, fails: after a successful poll of \<^verbatim>\<open>/streams\<close>, a response of status 500
  whose body is JSON replaces the stored collection by that body.
\<close>

theorem error_response_overwrites_streams:
  "streams polled = roster \<and>
   streams (dispatch (Settled StreamsEndpoint (Response 500 (JSON error_body))) polled) = error_body"
  by code_simp

lemma settled_failed:
  "awaited r = Inl e \<Longrightarrow> cells (dispatch (Settled ep r) w) = cells w"
  by (cases ep) (simp_all add: fetchStats_settled_def fetchStreams_settled_def
      fetchRecentDetections_settled_def cells_def)

text \<open>
  C4, amended. A poll of any of the three endpoints that is rejected, or whose body is
  not JSON, changes none of the cells; a response whose body is JSON replaces, in the
  mounted component, the cell of its endpoint by the decoded body, whatever the status
  and the shape, and no other cell.
\<close>

theorem polls_by_decoding:
  "cells (dispatch (Settled ep NetworkError) w) = cells w \<and>
   cells (dispatch (Settled ep (Response status NotJSON)) w) = cells w \<and>
   cells (dispatch (Settled StatsEndpoint (Response status (JSON data))) w) =
     cells (if mounted w then w\<lparr>stats := data\<rparr> else w) \<and>
   cells (dispatch (Settled StreamsEndpoint (Response status (JSON data))) w) =
     cells (if mounted w then w\<lparr>streams := data\<rparr> else w) \<and>
   cells (dispatch (Settled DetectionsEndpoint (Response status (JSON data))) w) =
     cells (if mounted w then w\<lparr>recentDetections := data\<rparr> else w)"
  by (simp add: settled_failed fetchStats_settled_def fetchStreams_settled_def
      fetchRecentDetections_settled_def setters_cells)

text \<open>
  An error body stored as the snapshot: Dashboard throws on it, so the tree is
  unmounted, the timer cleared and the socket closed.
\<close>

lemma error_stats_unmounts:
  "App error_body (JArr []) (JArr []) JNull = Inl TypeError \<and>
   stats (run [WsOpen, Settled StatsEndpoint (Response 500 (JSON error_body))] mount) = error_body \<and>
   mounted (run [WsOpen, Settled StatsEndpoint (Response 500 (JSON error_body))] mount) = False \<and>
   interval (run [WsOpen, Settled StatsEndpoint (Response 500 (JSON error_body))] mount) = False \<and>
   readyState (run [WsOpen, Settled StatsEndpoint (Response 500 (JSON error_body))] mount) = CLOSING"
  by code_simp

subsection \<open>A fetch that settles after the unmount\<close>

lemma dispatch_unmounted:
  assumes "\<not> mounted w"
  shows "cells (dispatch ev w) = cells w \<and> \<not> mounted (dispatch ev w)"
proof (cases ev)
  case (Settled ep r)
  then show ?thesis using assms
    by (cases ep; cases "awaited r")
      (simp_all add: fetchStats_settled_def fetchStreams_settled_def
        fetchRecentDetections_settled_def setters_unmounted cells_def)
next
  case (WsMessage d)
  then show ?thesis using assms
    by (cases d) (simp_all add: onmessage_def setters_unmounted cells_def)
qed (use assms in \<open>simp_all add: onopen_def onclose_def onerror_def tick_def fetchStats_def
      fetchStreams_def fetchRecentDetections_def setters_unmounted cells_def\<close>)

lemma run_unmounted:
  "\<not> mounted w \<Longrightarrow> cells (run evs w) = cells w \<and> \<not> mounted (run evs w)"
proof (induction evs arbitrary: w)
  case Nil
  then show ?case by (simp add: run_def)
next
  case (Cons ev evs)
  have d: "cells (dispatch ev w) = cells w" "\<not> mounted (dispatch ev w)"
    using dispatch_unmounted [OF Cons.prems] by simp_all
  have "run (ev # evs) w = run evs (dispatch ev w)" by (simp add: run_def)
  then show ?case using Cons.IH [OF d(2)] d(1) by simp
qed

text \<open>
  C5. After the unmount no event changes a cell any more: the result of a request that
  was in flight and settles afterwards is given to a setter whose update is dropped, so
  \<^verbatim>\<open>stats\<close>, \<^verbatim>\<open>streams\<close> and \<^verbatim>\<open>recentDetections\<close> (and the live data and the connection state)
  stay as they were, under every sequence of events.
\<close>

theorem no_mutation_after_unmount:
  "cells (run evs (unmount w)) = cells w \<and> mounted (run evs (unmount w)) = False"
  using run_unmounted [of "unmount w" evs] by (simp add: cells_def)

theorem no_mutation_after_unmount_witness:
  "cells (run [Settled StatsEndpoint (Response 200 (JSON snapshot)),
               Settled StreamsEndpoint (Response 200 (JSON roster)),
               Settled DetectionsEndpoint (Response 200 (JSON (JArr [])))] (unmount mount)) =
     (JNull, JArr [], JArr [], JNull, False)"
  using no_mutation_after_unmount
    [of "[Settled StatsEndpoint (Response 200 (JSON snapshot)),
          Settled StreamsEndpoint (Response 200 (JSON roster)),
          Settled DetectionsEndpoint (Response 200 (JSON (JArr [])))]" mount]
  by (simp add: cells_def mount_def initial_def fetchStats_def fetchStreams_def
      fetchRecentDetections_def)

subsection \<open>Division and rounding\<close>

lemma pow2_powi: "pow2 k = 2 powi k"
  by (simp add: pow2_def power_int_def inverse_eq_divide power_one_over)

lemma pow2_pos: "0 < pow2 k"
  by (simp add: pow2_powi)

lemma pow2_add: "pow2 (a + b) = pow2 a * pow2 b"
  by (simp add: pow2_powi power_int_add)

lemma pow2_mono: "a \<le> b \<Longrightarrow> pow2 a \<le> pow2 b"
  by (simp add: pow2_powi power_int_increasing)

lemma pow2_nat: "pow2 (int n) = 2 ^ n"
  by (simp add: pow2_def)

lemma exponent_bounds:
  assumes "0 < q"
  shows "pow2 (exponent q) \<le> q \<and> q < pow2 (exponent q + 1)"
proof -
  obtain a b where ab: "quotient_of q = (a, b)" by (cases "quotient_of q")
  have b: "0 < b" using ab by (rule quotient_of_denom_pos)
  have q: "q = of_int a / of_int b" using ab by (rule quotient_of_div)
  have a: "0 < a" using assms b unfolding q by (simp add: zero_less_divide_iff)
  define la lb where "la = bitlen a" and "lb = bitlen b"
  have la: "2 ^ nat (la - 1) \<le> a" "a < 2 ^ nat la"
    using bitlen_bounds [OF a] by (simp_all add: la_def)
  have lb: "2 ^ nat (lb - 1) \<le> b" "b < 2 ^ nat lb"
    using bitlen_bounds [OF b] by (simp_all add: lb_def)
  have la1: "1 \<le> la" using a by (simp add: la_def bitlen_alt_def)
  have lb1: "1 \<le> lb" using b by (simp add: lb_def bitlen_alt_def)
  have ar: "pow2 (la - 1) \<le> of_int a" "(of_int a :: rat) < pow2 la"
  proof -
    have "(of_int (2 ^ nat (la - 1)) :: rat) \<le> of_int a" using la(1) by (simp only: of_int_le_iff)
    then show "pow2 (la - 1) \<le> of_int a" using la1 by (simp add: pow2_def)
    have "(of_int a :: rat) < of_int (2 ^ nat la)" using la(2) by (simp only: of_int_less_iff)
    then show "(of_int a :: rat) < pow2 la" using la1 by (simp add: pow2_def)
  qed
  have br: "pow2 (lb - 1) \<le> of_int b" "(of_int b :: rat) < pow2 lb"
  proof -
    have "(of_int (2 ^ nat (lb - 1)) :: rat) \<le> of_int b" using lb(1) by (simp only: of_int_le_iff)
    then show "pow2 (lb - 1) \<le> of_int b" using lb1 by (simp add: pow2_def)
    have "(of_int b :: rat) < of_int (2 ^ nat lb)" using lb(2) by (simp only: of_int_less_iff)
    then show "(of_int b :: rat) < pow2 lb" using lb1 by (simp add: pow2_def)
  qed
  have bpos: "(0::rat) < of_int b" using b by simp
  have up: "q < pow2 (la - lb + 1)"
  proof -
    have "of_int a < pow2 la" by (rule ar(2))
    also have "pow2 la = pow2 (la - lb + 1) * pow2 (lb - 1)"
      by (simp add: pow2_add [symmetric])
    also have "\<dots> \<le> pow2 (la - lb + 1) * of_int b"
      using br(1) pow2_pos [of "la - lb + 1"] by (simp add: mult_left_mono)
    finally show ?thesis unfolding q using bpos by (simp add: pos_divide_less_eq)
  qed
  have lo: "pow2 (la - lb - 1) < q"
  proof -
    have "pow2 (la - lb - 1) * of_int b < pow2 (la - lb - 1) * pow2 lb"
      using br(2) pow2_pos [of "la - lb - 1"] by (simp add: mult_strict_left_mono)
    also have "\<dots> = pow2 (la - 1)" by (simp add: pow2_add [symmetric])
    also have "\<dots> \<le> of_int a" by (rule ar(1))
    finally show ?thesis unfolding q using bpos by (simp add: pos_less_divide_eq)
  qed
  have e: "exponent q = (if pow2 (la - lb) \<le> q then la - lb else la - lb - 1)"
    by (simp add: exponent_def ab la_def lb_def Let_def)
  show ?thesis
  proof (cases "pow2 (la - lb) \<le> q")
    case True
    then show ?thesis using up by (simp add: e)
  next
    case False
    then show ?thesis using lo by (simp add: e)
  qed
qed

lemma round_half_even_error: "\<bar>of_int (round_half_even r) - r\<bar> \<le> 1 / 2"
proof -
  have "of_int \<lfloor>r\<rfloor> \<le> r" "r < of_int \<lfloor>r\<rfloor> + 1" by linarith+
  then show ?thesis by (auto simp: round_half_even_def Let_def)
qed

lemma round_half_even_nonneg: "0 \<le> r \<Longrightarrow> 0 \<le> round_half_even r"
  by (auto simp: round_half_even_def Let_def)


lemma pow2_less_cancel: "pow2 a < pow2 b \<Longrightarrow> a < b"
  using pow2_mono [of b a] by (cases "a < b") simp_all

lemma binary64_normal:
  assumes q: "0 < q" and lo: "pow2 (- 1022) \<le> q" and hi: "q \<le> pow2 1023"
  shows "\<exists>v. binary64 q = Finite v \<and> 0 \<le> v \<and> \<bar>v - q\<bar> \<le> q / 2 ^ 53"
proof -
  define e where "e = exponent q"
  have eb: "pow2 e \<le> q" "q < pow2 (e + 1)"
    using exponent_bounds [OF q] by (simp_all add: e_def)
  have "pow2 (- 1022) < pow2 (e + 1)" using lo eb(2) by simp
  then have e: "- 1022 \<le> e" using pow2_less_cancel [of "- 1022" "e + 1"] by simp
  define s where "s = e - 52"
  have s: "max (exponent \<bar>q\<bar> - 52) (- 1074) = s" using e q by (simp add: s_def e_def)
  define m where "m = round_half_even (q / pow2 s)"
  define v where "v = of_int m * pow2 s"
  have ps: "0 < pow2 s" by (rule pow2_pos)
  have m0: "0 \<le> m" unfolding m_def using q ps by (intro round_half_even_nonneg) simp
  have v0: "0 \<le> v" unfolding v_def using m0 ps by simp
  have "\<bar>of_int m - q / pow2 s\<bar> \<le> 1 / 2" unfolding m_def by (rule round_half_even_error)
  then have "\<bar>of_int m - q / pow2 s\<bar> * pow2 s \<le> 1 / 2 * pow2 s"
    using ps by (simp only: mult_le_cancel_right_pos)
  moreover have "\<bar>of_int m - q / pow2 s\<bar> * pow2 s = \<bar>v - q\<bar>"
  proof -
    have "\<bar>of_int m - q / pow2 s\<bar> * pow2 s = \<bar>(of_int m - q / pow2 s) * pow2 s\<bar>"
      using ps by (simp add: abs_mult)
    also have "(of_int m - q / pow2 s) * pow2 s = v - q"
      using ps by (simp add: v_def left_diff_distrib)
    finally show ?thesis .
  qed
  moreover have "1 / 2 * pow2 s = pow2 e / 2 ^ 53"
  proof -
    have "e = s + 52" by (simp add: s_def)
    then have "pow2 e = pow2 s * pow2 52" by (simp only: pow2_add)
    also have "pow2 52 = 2 ^ 52" using pow2_nat [of 52] by simp
    finally have "pow2 e / 2 ^ 53 = pow2 s * 2 ^ 52 / (2 * 2 ^ 52)" by simp
    then show ?thesis by simp
  qed
  ultimately have err: "\<bar>v - q\<bar> \<le> pow2 e / 2 ^ 53" by simp
  have "pow2 e / 2 ^ 53 \<le> q / (2 ^ 53 :: rat)" using eb(1) by (simp add: divide_right_mono)
  with err have err': "\<bar>v - q\<bar> \<le> q / 2 ^ 53" by simp
  have "v \<le> q + q / 2 ^ 53" using err' by linarith
  also have "q / 2 ^ 53 < q" using q by (simp add: field_simps)
  finally have "v < 2 * q" by simp
  also have "2 * q \<le> 2 * pow2 1023" using hi by simp
  also have "2 * pow2 1023 = pow2 1024" using pow2_add [of 1 1023] by (simp add: pow2_def)
  finally have nov: "\<not> pow2 1024 \<le> v" by simp
  have "binary64 q = Finite v"
    using q nov unfolding binary64_def s Let_def
    by (simp add: v_def m_def)
  then show ?thesis using v0 err' by blast
qed

lemma toFixed1_near:
  assumes "0 \<le> v" and "v < 10 ^ 21"
  shows "\<exists>n. toFixed1 (Finite v) = Text (decimal1 n) \<and> \<bar>of_nat n / 10 - v\<bar> \<le> 1 / 20"
proof -
  define z where "z = \<lfloor>10 * v + 1 / 2\<rfloor>"
  have z0: "0 \<le> z" unfolding z_def using assms(1) by simp
  have zb: "of_int z \<le> 10 * v + 1 / 2" "10 * v + 1 / 2 < of_int z + 1"
    unfolding z_def by linarith+
  have n: "(of_nat (nat z) :: rat) = of_int z" using z0 by simp
  have "toFixed1 (Finite v) = Text (decimal1 (nat z))"
    using assms by (simp add: toFixed1_def z_def)
  moreover have "\<bar>of_nat (nat z) / 10 - v\<bar> \<le> 1 / 20"
    unfolding n using zb by linarith
  ultimately show ?thesis by blast
qed

lemma js_div_safe:
  assumes d: "d < 2 ^ 53" and f0: "0 < f" and f: "f < 2 ^ 53"
  shows "\<exists>v. js_div (of_nat d) (of_nat f) = Finite v \<and> 0 \<le> v \<and>
           \<bar>v - of_nat d / of_nat f\<bar> \<le> of_nat d / of_nat f / 2 ^ 53"
proof (cases "d = 0")
  case True
  then show ?thesis using f0 by (simp add: js_div_def binary64_def)
next
  case False
  define q :: rat where "q = of_nat d / of_nat f"
  have fq: "(0::rat) < of_nat f" using f0 by simp
  have dq: "(1::rat) \<le> of_nat d" using False by (simp add: Suc_le_eq)
  have q0: "0 < q" unfolding q_def using fq dq by simp
  have "(of_nat f :: rat) < of_nat (2 ^ 53)" using f by (simp only: of_nat_less_iff)
  then have f': "(of_nat f :: rat) < 2 ^ 53" by simp
  have "(of_nat d :: rat) < of_nat (2 ^ 53)" using d by (simp only: of_nat_less_iff)
  then have d': "(of_nat d :: rat) < 2 ^ 53" by simp
  have "1 / 2 ^ 53 \<le> 1 / (of_nat f :: rat)" using f' fq by (simp add: frac_le)
  also have "\<dots> \<le> q" unfolding q_def using dq fq by (simp add: divide_right_mono)
  finally have "1 / 2 ^ 53 \<le> q" .
  moreover have "pow2 (- 1022) \<le> pow2 (- 53)" by (rule pow2_mono) simp
  moreover have "pow2 (- 53) = 1 / 2 ^ 53" by (simp add: pow2_def)
  ultimately have lo: "pow2 (- 1022) \<le> q" by simp
  have "q \<le> of_nat d" unfolding q_def using fq f0 by (simp add: field_simps Suc_le_eq mult_le_cancel_left1)
  also have "\<dots> \<le> 2 ^ 53" using d' by simp
  also have "(2 ^ 53 :: rat) = pow2 53" using pow2_nat [of 53] by simp
  also have "pow2 53 \<le> pow2 1023" by (rule pow2_mono) simp
  finally have hi: "q \<le> pow2 1023" .
  have "js_div (of_nat d) (of_nat f) = binary64 q" using f0 by (simp add: js_div_def q_def)
  then show ?thesis using binary64_normal [OF q0 lo hi] by (simp add: q_def)
qed


subsection \<open>Average detections per frame\<close>

text \<open>
  C7, as stated, fails: with one detection in three frames the cell shows \<^verbatim>\<open>0.3\<close>, which
  is three tenths and not the quotient one third.
\<close>

theorem one_third_shown_as_tenths:
  "Dashboard thirds JNull =
     Inr (Grid \<lparr>total_frames = LocaleString (JNum 3), total_detections = LocaleString (JNum 1),
                 active_streams = Value (JNum 1), frame_queue = Value (JNum 0),
                 results_queue = Value (JNum 0), avg_detections_per_frame = Text (decimal1 3)\<rparr>) \<and>
   decimal1 3 = ''0.3'' \<and> (of_nat 3 / 10 :: rat) \<noteq> 1 / 3"
  by code_simp

lemma safe_quotient_text:
  assumes d: "d < 2 ^ 53" and f0: "0 < f" and f: "f < 2 ^ 53"
  shows "\<exists>n. toFixed1 (js_div (of_nat d) (of_nat f)) = Text (decimal1 n) \<and>
           \<bar>of_nat n / 10 - of_nat d / of_nat f\<bar>
             \<le> 1 / 20 + of_nat d / of_nat f / (2 ^ 53 :: rat)"
proof -
  define q :: rat where "q = of_nat d / of_nat f"
  obtain v where v: "js_div (of_nat d) (of_nat f) = Finite v" "0 \<le> v" "\<bar>v - q\<bar> \<le> q / 2 ^ 53"
    using js_div_safe [OF d f0 f] unfolding q_def by blast
  have "(of_nat d :: rat) < of_nat (2 ^ 53)" using d by (simp only: of_nat_less_iff)
  then have d': "(of_nat d :: rat) < 2 ^ 53" by simp
  have q0: "0 \<le> q" by (simp add: q_def)
  have "q \<le> of_nat d"
    unfolding q_def using f0 by (simp add: field_simps Suc_le_eq mult_le_cancel_left1)
  then have qd: "q < 2 ^ 53" using d' by simp
  have "q / 2 ^ 53 \<le> q" using q0 by (simp add: field_simps)
  then have "v \<le> 2 * q" using v(3) by linarith
  then have "v < 2 * 2 ^ 53" using qd by simp
  then have "v < 10 ^ 21" by simp
  from toFixed1_near [OF v(2) this] obtain n where
    n: "toFixed1 (Finite v) = Text (decimal1 n)" "\<bar>of_nat n / 10 - v\<bar> \<le> 1 / 20"
    by blast
  have "\<bar>of_nat n / 10 - q\<bar> \<le> 1 / 20 + q / 2 ^ 53" using n(2) v(3) by linarith
  then show ?thesis using n(1) v(1) unfolding q_def by auto
qed

text \<open>
  C7, amended. For non-negative integers \<open>d\<close> detections and \<open>f\<close> frames the cell shows
  \<^verbatim>\<open>0.0\<close> when \<open>f = 0\<close>, and the quotient \<open>d / f\<close> (never a division by zero) printed by
  \<^verbatim>\<open>toFixed(1)\<close> when \<open>f > 0\<close>; for integers below \<open>2 ^ 53\<close> that is a numeral with one
  decimal within \<open>1 / 20 + (d / f) / 2 ^ 53\<close> of the quotient.
\<close>

theorem average_to_one_decimal:
  assumes tf: "get s ''total_frames_processed'' = Inr (JNum (of_nat f))"
    and td: "get s ''total_detections'' = Inr (JNum (of_nat d))"
  shows "\<exists>g. Dashboard s l = Inr (Grid g) \<and>
           (f = 0 \<longrightarrow> avg_detections_per_frame g = Text ''0.0'') \<and>
           (0 < f \<longrightarrow> avg_detections_per_frame g = toFixed1 (js_div (of_nat d) (of_nat f))) \<and>
           (0 < f \<and> d < 2 ^ 53 \<and> f < 2 ^ 53 \<longrightarrow>
              (\<exists>n. avg_detections_per_frame g = Text (decimal1 n) \<and>
                 \<bar>of_nat n / 10 - of_nat d / of_nat f\<bar>
                   \<le> 1 / 20 + of_nat d / of_nat f / (2 ^ 53 :: rat)))"
proof -
  have ts: "truthy s" using tf by (rule get_Inr_truthy) simp
  obtain n where n: "get s ''active_streams'' = Inr n" using get_total [OF ts] by blast
  obtain fq where fq: "queue_depth s l ''frame_queue_size'' = Inr fq"
    using queue_depth_total [OF ts] by blast
  obtain rq where rq: "queue_depth s l ''results_queue_size'' = Inr rq"
    using queue_depth_total [OF ts] by blast
  define g where "g = \<lparr>total_frames = LocaleString (JNum (of_nat f)),
     total_detections = LocaleString (JNum (of_nat d)), active_streams = Value n,
     frame_queue = Value fq, results_queue = Value rq,
     avg_detections_per_frame = avg_detections (JNum (of_nat d)) (JNum (of_nat f))\<rparr>"
  have D: "Dashboard s l = Inr (Grid g)"
    by (simp add: Dashboard_def ts tf td n fq rq g_def)
  have a: "avg_detections_per_frame g = avg_detections (JNum (of_nat d)) (JNum (of_nat f))"
    by (simp add: g_def)
  have z: "f = 0 \<longrightarrow> avg_detections_per_frame g = Text ''0.0''" by (simp add: a)
  have p: "0 < f \<longrightarrow> avg_detections_per_frame g = toFixed1 (js_div (of_nat d) (of_nat f))"
    by (simp add: a)
  have b: "0 < f \<and> d < 2 ^ 53 \<and> f < 2 ^ 53 \<longrightarrow>
              (\<exists>n. avg_detections_per_frame g = Text (decimal1 n) \<and>
                 \<bar>of_nat n / 10 - of_nat d / of_nat f\<bar>
                   \<le> 1 / 20 + of_nat d / of_nat f / (2 ^ 53 :: rat))"
    using safe_quotient_text [of d f] by (simp add: a)
  from D z p b show ?thesis by blast
qed

lemma snapshot_text: "toFixed1 (js_div 50 100) = Text ''0.5''"
  by code_simp

theorem average_to_one_decimal_witness:
  "(\<exists>g. Dashboard snapshot JNull = Inr (Grid g) \<and> avg_detections_per_frame g = Text ''0.5'') \<and>
   (\<exists>g. Dashboard no_frames JNull = Inr (Grid g) \<and> avg_detections_per_frame g = Text ''0.0'')"
proof
  show "\<exists>g. Dashboard snapshot JNull = Inr (Grid g) \<and> avg_detections_per_frame g = Text ''0.5''"
    using average_to_one_decimal [of snapshot 100 50 JNull] snapshot_text
    by (auto simp: snapshot_def)
  show "\<exists>g. Dashboard no_frames JNull = Inr (Grid g) \<and> avg_detections_per_frame g = Text ''0.0''"
    using average_to_one_decimal [of no_frames 0 0 JNull]
    by (auto simp: no_frames_def)
qed

subsection \<open>Object counts\<close>

lemma count_label_other: "k' \<noteq> k \<Longrightarrow> count_label m k' k = m k"
proof (cases "m k'")
  case None
  assume "k' \<noteq> k"
  with None show ?thesis by (simp add: count_label_def)
next
  case (Some t)
  assume "k' \<noteq> k"
  with Some show ?thesis by (cases t) (simp_all add: count_label_def)
qed

lemma count_label_same:
  "k \<notin> set Object_prototype \<Longrightarrow>
   count_label m k k =
     Some (case m k of None \<Rightarrow> Count 1 | Some (Count n) \<Rightarrow> Count (n + 1)
           | Some (Concat t n) \<Rightarrow> Concat t (n + 1))"
proof (cases "m k")
  case None
  assume "k \<notin> set Object_prototype"
  with None show ?thesis by (simp add: count_label_def)
next
  case (Some t)
  then show ?thesis by (cases t) (simp_all add: count_label_def)
qed

lemma fold_count_label:
  assumes "k \<notin> set Object_prototype"
  shows "m k = None \<or> (\<exists>n. m k = Some (Count (Suc n))) \<Longrightarrow>
         fold (\<lambda>det counts. count_label counts (class_name det)) ds m k =
           (let c = (case m k of Some (Count n) \<Rightarrow> n | _ \<Rightarrow> 0) + count_list (map class_name ds) k
            in if c = 0 then None else Some (Count c))"
proof (induction ds arbitrary: m)
  case Nil
  then show ?case by auto
next
  case (Cons det ds)
  let ?m = "count_label m (class_name det)"
  show ?case
  proof (cases "class_name det = k")
    case True
    have s: "?m k = Some (case m k of None \<Rightarrow> Count 1 | Some (Count n) \<Rightarrow> Count (n + 1)
           | Some (Concat t n) \<Rightarrow> Concat t (n + 1))"
      using count_label_same [OF assms, of m] True by simp
    with Cons.prems have inv: "?m k = None \<or> (\<exists>n. ?m k = Some (Count (Suc n)))" by auto
    show ?thesis using Cons.IH [of ?m, OF inv] Cons.prems True s by (auto simp: Let_def)
  next
    case False
    have s: "?m k = m k" using False by (simp add: count_label_other)
    with Cons.prems have inv: "?m k = None \<or> (\<exists>n. ?m k = Some (Count (Suc n)))" by simp
    show ?thesis using Cons.IH [of ?m, OF inv] False s by (simp add: Let_def)
  qed
qed

lemma getObjectCounts_counts:
  assumes "k \<notin> set Object_prototype"
  shows "getObjectCounts ds k =
           (if k \<in> set (map class_name ds) then Some (Count (count_list (map class_name ds) k))
            else None)"
proof -
  have "getObjectCounts ds k =
      (let c = count_list (map class_name ds) k in if c = 0 then None else Some (Count c))"
    unfolding getObjectCounts_def using fold_count_label [OF assms, of Map.empty ds] by simp
  then show ?thesis by (simp add: Let_def count_list_0_iff)
qed

lemma getObjectCounts_empty: "getObjectCounts [] = Map.empty"
  by (simp add: getObjectCounts_def)

lemma getObjectCounts_example:
  "getObjectCounts (labelled [''car'', ''car'', ''person'']) =
     [''car'' \<mapsto> Count 2, ''person'' \<mapsto> Count 1]"
  by (rule ext) (simp add: getObjectCounts_def labelled_def count_label_def Object_prototype_def)

text \<open>
  C8. The counts are right for every label that \<^verbatim>\<open>Object.prototype\<close> does not define
  (\<open>getObjectCounts_counts\<close>), for the empty list and for the spec's example. For a label
  that it defines they are not: \<^verbatim>\<open>constructor\<close> once gives a string, not 1;
  \<^verbatim>\<open>toString\<close> twice gives a string, not 2; \<^verbatim>\<open>__proto__\<close> gives no entry.
\<close>

theorem getObjectCounts_inherited_member:
  "getObjectCounts (labelled [''constructor'']) ''constructor'' = Some (Concat ''constructor'' 1) \<and>
   getObjectCounts (labelled [''car'', ''toString'', ''toString'']) ''toString'' = Some (Concat ''toString'' 2) \<and>
   getObjectCounts (labelled [''__proto__'']) ''__proto__'' = None"
  by (simp add: getObjectCounts_def labelled_def count_label_def Object_prototype_def)

end
